theory Spec2Isabelle
  imports Complex_Main
begin

section \<open>Numbers, errors and panics\<close>

text \<open>
  Go's \<^verbatim>\<open>float64\<close> is modelled by \<^typ>\<open>real\<close>: rounding, infinities and NaN are
  outside the model. Go's \<^verbatim>\<open>int\<close> is modelled by \<^typ>\<open>int\<close>; where the code does
  arithmetic on a dimension it received as a bare \<^verbatim>\<open>int\<close> (\<^verbatim>\<open>dimension+1\<close>,
  \<^verbatim>\<open>dimension*2\<close>) the 64-bit wrap-around is written out with \<open>wrap64\<close>.
  Lengths of slices are natural numbers.
\<close>

definition wrap64 :: "int \<Rightarrow> int" where
  "wrap64 k = (k + 9223372036854775808) mod 18446744073709551616 - 9223372036854775808"

text \<open>
  The errors the packages build with \<^verbatim>\<open>fmt.Errorf\<close>, one constructor per kind of
  message. A function that returns \<^verbatim>\<open>(value, error)\<close> is modelled by a sum
  (\<open>Inl\<close> the error) or, where a claim speaks about the value returned beside the
  error, by a pair with an optional error. A run-time panic (an index out of
  range, a panic of the matrix library) is the result \<open>None\<close> of an option
  around the whole result.
\<close>

datatype error =
    ConfigurationError
  | DimensionMismatch
  | DuplicateIdentifier
  | InsufficientMeasurements
  | SolveFailure
  | NilVectors
  | EmptyVectors

section \<open>Package common: vectors\<close>

type_synonym Vector = "real list"

definition NewVector :: "nat \<Rightarrow> Vector" where
  "NewVector dimension = replicate dimension 0"

definition Vector_Dimension :: "Vector \<Rightarrow> nat" where
  "Vector_Dimension v = length v"

definition Vector_Distance :: "Vector \<Rightarrow> Vector \<Rightarrow> real \<times> error option" where
  "Vector_Distance v other =
     (if Vector_Dimension v \<noteq> Vector_Dimension other then (0, Some DimensionMismatch)
      else (sqrt (sum_list (map2 (\<lambda>a b. (a - b) * (a - b)) v other)), None))"

definition Vector_Add :: "Vector \<Rightarrow> Vector \<Rightarrow> error + Vector" where
  "Vector_Add v other =
     (if Vector_Dimension v \<noteq> Vector_Dimension other then Inl DimensionMismatch
      else Inr (map2 (\<lambda>a b. a + b) v other))"

definition Vector_Subtract :: "Vector \<Rightarrow> Vector \<Rightarrow> error + Vector" where
  "Vector_Subtract v other =
     (if Vector_Dimension v \<noteq> Vector_Dimension other then Inl DimensionMismatch
      else Inr (map2 (\<lambda>a b. a - b) v other))"

definition Vector_MultiplyByScalar :: "Vector \<Rightarrow> real \<Rightarrow> Vector" where
  "Vector_MultiplyByScalar v scalar = map (\<lambda>a. a * scalar) v"

definition Vector_Clone :: "Vector \<Rightarrow> Vector" where
  "Vector_Clone v = v"

definition Vector_NormSq :: "Vector \<Rightarrow> real" where
  "Vector_NormSq v = sum_list (map (\<lambda>val. val * val) v)"

section \<open>Package multilateration: the solver\<close>

record Measurement =
  SensorPosition :: Vector
  Distance :: real

text \<open>\<open>Position = None\<close> is Go's nil vector.\<close>

record Solution =
  Position :: "Vector option"
  ResidualError :: real

definition emptySolution :: Solution where
  "emptySolution = \<lparr>Position = None, ResidualError = 0\<rparr>"

text \<open>
  The least-squares solve itself is done by the matrix library
  (\<^verbatim>\<open>qr.Factorize(A)\<close> followed by \<^verbatim>\<open>qr.SolveVecTo(&x, false, b)\<close>), which is not
  code of this repository. It is a parameter of the model: a function from the
  matrix (a list of rows) and the right-hand side to the candidate \<open>x\<close>, or to
  \<open>None\<close> when the library returns an error.
\<close>

type_synonym qr_solver = "real list list \<Rightarrow> real list \<Rightarrow> real list option"

definition MulVec :: "real list list \<Rightarrow> real list \<Rightarrow> real list" where
  "MulVec A x = map (\<lambda>row. sum_list (map2 (\<lambda>a c. a * c) row x)) A"

definition SubVec :: "real list \<Rightarrow> real list \<Rightarrow> real list" where
  "SubVec b y = map2 (\<lambda>p q. p - q) b y"

definition Nrm2 :: "real list \<Rightarrow> real" where
  "Nrm2 r = sqrt (sum_list (map (\<lambda>c. c * c) r))"

text \<open>
  The loop that fills \<^verbatim>\<open>aData\<close> and \<^verbatim>\<open>bData\<close>, one iteration per measurement
  before the reference. An iteration returns the error of \<^verbatim>\<open>Subtract\<close>, panics
  when \<^verbatim>\<open>scaledDiff[j]\<close> is read past the end of the difference vector, and
  otherwise stores the first \<^verbatim>\<open>dimension\<close> coordinates of \<^verbatim>\<open>scaledDiff\<close> as row
  \<open>i\<close> and the right-hand side as entry \<open>i\<close>.
\<close>

fun equations ::
  "Vector \<Rightarrow> real \<Rightarrow> real \<Rightarrow> int \<Rightarrow> Measurement list
     \<Rightarrow> (error + real list list \<times> real list) option" where
  "equations refSensorPos refDistSq refSensorNormSq dimension [] = Some (Inr ([], []))"
| "equations refSensorPos refDistSq refSensorNormSq dimension (m # ms) =
     (let sensorPos = SensorPosition m;
          dist = (if Distance m < 0 then 0 else Distance m);
          distSq = dist * dist;
          sensorNormSq = Vector_NormSq sensorPos
      in case Vector_Subtract refSensorPos sensorPos of
           Inl err \<Rightarrow> Some (Inl DimensionMismatch)
         | Inr diffVec \<Rightarrow>
             let scaledDiff = Vector_MultiplyByScalar diffVec 2 in
             if int (length scaledDiff) < dimension then None
             else (case equations refSensorPos refDistSq refSensorNormSq dimension ms of
                     None \<Rightarrow> None
                   | Some (Inl err) \<Rightarrow> Some (Inl err)
                   | Some (Inr (aData, bData)) \<Rightarrow>
                       Some (Inr (take (nat dimension) scaledDiff # aData,
                                  (distSq - refDistSq - sensorNormSq + refSensorNormSq) # bData))))"

text \<open>
  \<^verbatim>\<open>SolveLeastSquares\<close>. The panics written out: \<^verbatim>\<open>measurements[numMeasurements-1]\<close>
  on an empty slice, \<^verbatim>\<open>make\<close> with a negative length, and the matrix library's
  panics (\<^verbatim>\<open>mat.NewDense\<close> with a zero dimension, \<^verbatim>\<open>qr.Factorize\<close> with fewer rows
  than columns, \<^verbatim>\<open>MulVec\<close> and \<^verbatim>\<open>AtVec\<close> on a candidate whose length is not
  \<^verbatim>\<open>dimension\<close>). The line \<^verbatim>\<open>rank := dimension\<close> makes the test
  \<^verbatim>\<open>rank < dimension\<close> false, so the warning it guards is never printed and has
  no counterpart here.
\<close>

definition SolveLeastSquares ::
  "qr_solver \<Rightarrow> Measurement list \<Rightarrow> int \<Rightarrow> (Solution \<times> error option) option" where
  "SolveLeastSquares solver measurements dimension =
     (let numMeasurements = length measurements in
      if int numMeasurements < wrap64 (dimension + 1)
      then Some (emptySolution, Some InsufficientMeasurements)
      else if numMeasurements = 0 then None
      else
        let refSensorPos = SensorPosition (last measurements);
            refDist = (if Distance (last measurements) < 0 then 0
                       else Distance (last measurements));
            refDistSq = refDist * refDist;
            refSensorNormSq = Vector_NormSq refSensorPos;
            numEquations = numMeasurements - 1
        in if int numEquations * dimension < 0 then None
           else (case equations refSensorPos refDistSq refSensorNormSq dimension
                        (butlast measurements) of
                   None \<Rightarrow> None
                 | Some (Inl err) \<Rightarrow> Some (emptySolution, Some err)
                 | Some (Inr (aData, bData)) \<Rightarrow>
                     if numEquations = 0 \<or> dimension \<le> 0 \<or> int numEquations < dimension
                     then None
                     else (case solver aData bData of
                             None \<Rightarrow> Some (emptySolution, Some SolveFailure)
                           | Some x \<Rightarrow>
                               if int (length x) \<noteq> dimension then None
                               else
                                 let residualVec = SubVec bData (MulVec aData x);
                                     residualNorm = Nrm2 residualVec;
                                     normalizedResidual =
                                       residualNorm / sqrt (real numEquations);
                                     resultVector = take (nat dimension) x
                                 in Some (\<lparr>Position = Some resultVector,
                                           ResidualError = normalizedResidual\<rparr>, None))))"

definition CalculateLocalizationError ::
  "Vector option \<Rightarrow> Vector option \<Rightarrow> real \<times> error option" where
  "CalculateLocalizationError truePosition estimatedPosition =
     (case (truePosition, estimatedPosition) of
        (Some t, Some e) \<Rightarrow>
          if length t = 0 \<or> length e = 0 then (0, Some EmptyVectors)
          else Vector_Distance t e
      | _ \<Rightarrow> (0, Some NilVectors))"

subsection \<open>The linear system in the specification's words\<close>

text \<open>
  The specification's equation for a measurement \<open>i\<close> against the reference:
  row \<open>2 (refPos - sensorPos\<^sub>i)\<close> and right-hand side
  \<open>dist\<^sub>i\<^sup>2 - refDist\<^sup>2 - \<parallel>sensorPos\<^sub>i\<parallel>\<^sup>2 + \<parallel>refPos\<parallel>\<^sup>2\<close>, the reference being
  the last measurement of the list; and the Euclidean norm of the residual
  \<open>b - A x\<close>. These definitions follow the specification and are compared with
  what \<open>SolveLeastSquares\<close> computes.
\<close>

definition matrix_row :: "Vector \<Rightarrow> Vector \<Rightarrow> nat \<Rightarrow> real list" where
  "matrix_row refPos sensorPos D = map (\<lambda>j. 2 * (refPos ! j - sensorPos ! j)) [0..<D]"

definition rhs_entry :: "Vector \<Rightarrow> real \<Rightarrow> Vector \<Rightarrow> real \<Rightarrow> real" where
  "rhs_entry refPos refDist sensorPos d =
     d\<^sup>2 - refDist\<^sup>2 - (\<Sum>j<length sensorPos. (sensorPos ! j)\<^sup>2)
       + (\<Sum>j<length refPos. (refPos ! j)\<^sup>2)"

definition linear_system :: "Measurement list \<Rightarrow> nat \<Rightarrow> real list list \<times> real list" where
  "linear_system ms D =
     (let refPos = SensorPosition (last ms); refDist = Distance (last ms) in
      (map (\<lambda>m. matrix_row refPos (SensorPosition m) D) (butlast ms),
       map (\<lambda>m. rhs_entry refPos refDist (SensorPosition m) (Distance m)) (butlast ms)))"

definition residual_norm :: "real list list \<Rightarrow> real list \<Rightarrow> real list \<Rightarrow> real" where
  "residual_norm A b x =
     sqrt (\<Sum>i<length b. (b ! i - (\<Sum>j<length x. A ! i ! j * x ! j))\<^sup>2)"

text \<open>
  A matrix with \<open>D\<close> columns has rank below \<open>D\<close> when a vector other than zero is
  orthogonal to all its rows.
\<close>

definition rank_deficient :: "real list list \<Rightarrow> nat \<Rightarrow> bool" where
  "rank_deficient A D =
     (\<exists>x. length x = D \<and> (\<exists>j<D. x ! j \<noteq> 0) \<and>
          (\<forall>row \<in> set A. (\<Sum>j<D. row ! j * x ! j) = 0))"

section \<open>Package simulation: randomness, noise, sensors and targets\<close>

text \<open>
  The package draws from Go's global generator. The model threads the generator
  through every function that draws: a generator is the infinite sequence of the
  draws still to come, and a draw takes its head. \<^verbatim>\<open>rand.Float64\<close> returns
  values in \<open>[0, 1)\<close> and \<^verbatim>\<open>rand.NormFloat64\<close> any float; the model lets both
  return any real, so a theorem stated for every generator covers every run.
\<close>

type_synonym rand = "nat \<Rightarrow> real"

definition rand_Float64 :: "rand \<Rightarrow> real \<times> rand" where
  "rand_Float64 r = (r 0, \<lambda>n. r (Suc n))"

definition rand_NormFloat64 :: "rand \<Rightarrow> real \<times> rand" where
  "rand_NormFloat64 r = (r 0, \<lambda>n. r (Suc n))"

type_synonym NoiseFunction = "real \<Rightarrow> rand \<Rightarrow> real \<times> rand"

definition NoNoise :: NoiseFunction where
  "NoNoise trueDistance r = (trueDistance, r)"

definition GaussianNoise :: "real \<Rightarrow> NoiseFunction" where
  "GaussianNoise stdDev =
     (let stdDev' = (if stdDev < 0 then 0 else stdDev) in
      (\<lambda>trueDistance r.
         let (z, r') = rand_NormFloat64 r;
             noise = z * stdDev'
         in (trueDistance + noise, r')))"

definition UniformNoise :: "real \<Rightarrow> NoiseFunction" where
  "UniformNoise maxDelta =
     (let maxDelta' = (if maxDelta < 0 then 0 else maxDelta) in
      (\<lambda>trueDistance r.
         let (u, r') = rand_Float64 r;
             noise = (u * 2 - 1) * maxDelta'
         in (trueDistance + noise, r')))"

definition PercentageNoise :: "real \<Rightarrow> NoiseFunction" where
  "PercentageNoise percentage =
     (let percentage' = (if percentage < 0 then 0 else percentage) in
      (\<lambda>trueDistance r.
         let noiseMagnitude = trueDistance * percentage';
             (u, r') = rand_Float64 r;
             noise = (u * 2 - 1) * noiseMagnitude
         in (trueDistance + noise, r')))"

text \<open>
  The fields \<^verbatim>\<open>id\<close> and \<^verbatim>\<open>position\<close> of the two structs carry the struct's name,
  since a record field is a constant of the theory. \<open>noiseFunc = None\<close> is the
  nil function. The identifier is built from a fresh UUID, a parameter here.
\<close>

record Sensor =
  sensor_id :: string
  sensor_position :: Vector
  detectionRadius :: real
  noiseFunc :: "NoiseFunction option"

record Target =
  target_id :: string
  target_position :: Vector
  velocity :: Vector

datatype SimulationObject = SensorObj Sensor | TargetObj Target

definition NewSensor :: "Vector \<Rightarrow> real \<Rightarrow> NoiseFunction option \<Rightarrow> string \<Rightarrow> Sensor" where
  "NewSensor pos radius noise uuid =
     \<lparr>sensor_id = ''sensor-'' @ take 8 uuid, sensor_position = Vector_Clone pos,
      detectionRadius = radius, noiseFunc = noise\<rparr>"

definition NewTarget :: "Vector \<Rightarrow> string \<Rightarrow> Target" where
  "NewTarget pos uuid =
     (let dim = Vector_Dimension pos; vel = NewVector dim in
      \<lparr>target_id = ''target-'' @ take 8 uuid, target_position = Vector_Clone pos,
       velocity = vel\<rparr>)"

definition Sensor_GetID :: "Sensor \<Rightarrow> string" where
  "Sensor_GetID s = sensor_id s"

definition Sensor_GetPosition :: "Sensor \<Rightarrow> Vector" where
  "Sensor_GetPosition s = Vector_Clone (sensor_position s)"

definition Target_GetID :: "Target \<Rightarrow> string" where
  "Target_GetID t = target_id t"

definition Target_GetPosition :: "Target \<Rightarrow> Vector" where
  "Target_GetPosition t = Vector_Clone (target_position t)"

fun GetID :: "SimulationObject \<Rightarrow> string" where
  "GetID (SensorObj s) = Sensor_GetID s"
| "GetID (TargetObj t) = Target_GetID t"

fun GetPosition :: "SimulationObject \<Rightarrow> Vector" where
  "GetPosition (SensorObj s) = Sensor_GetPosition s"
| "GetPosition (TargetObj t) = Target_GetPosition t"

text \<open>\<^verbatim>\<open>MeasureDistance\<close> returns \<^verbatim>\<open>(distance, inRange, error)\<close>.\<close>

definition Sensor_MeasureDistance ::
  "Sensor \<Rightarrow> SimulationObject \<Rightarrow> rand \<Rightarrow> (real \<times> bool \<times> error option) \<times> rand" where
  "Sensor_MeasureDistance s target r =
     (let targetPos = GetPosition target;
          (trueDist, err) = Vector_Distance (sensor_position s) targetPos
      in if err \<noteq> None then ((0, False, err), r)
         else if detectionRadius s > 0 \<and> trueDist > detectionRadius s
         then ((0, False, None), r)
         else
           let (noisyDist, r') =
                 (case noiseFunc s of
                    None \<Rightarrow> (trueDist, r)
                  | Some f \<Rightarrow> f trueDist r);
               noisyDist' = (if noisyDist < 0 then 0 else noisyDist)
           in ((noisyDist', True, None), r'))"

subsection \<open>The motion of a target\<close>

definition accelerationScale :: real where
  "accelerationScale = 5"

definition maxSpeed :: real where
  "maxSpeed = 10"

text \<open>The first loop of \<^verbatim>\<open>Update\<close>: one draw per axis, added to the velocity.\<close>

fun perturb_velocity :: "nat list \<Rightarrow> real \<Rightarrow> Vector \<Rightarrow> rand \<Rightarrow> Vector \<times> rand" where
  "perturb_velocity [] deltaTime vel r = (vel, r)"
| "perturb_velocity (i # rest) deltaTime vel r =
     (let (u, r') = rand_Float64 r in
      perturb_velocity rest deltaTime
        (vel[i := vel ! i + (u * 2 - 1) * accelerationScale * deltaTime]) r')"

definition limit_speed :: "Vector \<Rightarrow> Vector" where
  "limit_speed vel =
     (let currentSpeedSq = sum_list (map (\<lambda>v. v * v) vel) in
      if currentSpeedSq > maxSpeed * maxSpeed
      then Vector_MultiplyByScalar vel (maxSpeed / sqrt currentSpeedSq)
      else vel)"

text \<open>The boundary loop of \<^verbatim>\<open>Update\<close>, over the axes in order.\<close>

fun bounce :: "nat list \<Rightarrow> real list \<Rightarrow> Vector \<Rightarrow> Vector \<Rightarrow> Vector \<times> Vector" where
  "bounce [] bnds newPos vel = (newPos, vel)"
| "bounce (i # rest) bnds newPos vel =
     (let minBound = bnds ! (i * 2);
          maxBound = bnds ! (i * 2 + 1)
      in if newPos ! i < minBound
         then bounce rest bnds (newPos[i := minBound + (minBound - newPos ! i)])
                (vel[i := vel ! i * (- 0.8)])
         else if newPos ! i > maxBound
         then bounce rest bnds (newPos[i := maxBound - (newPos ! i - maxBound)])
                (vel[i := vel ! i * (- 0.8)])
         else bounce rest bnds newPos vel)"

text \<open>
  \<^verbatim>\<open>Target.Update\<close> mutates the target and the generator; the model returns both.
  With bounds of the wrong length the call only prints a warning. A velocity
  shorter than the position makes \<^verbatim>\<open>t.velocity[i]\<close> panic. When \<^verbatim>\<open>Add\<close> fails
  (a velocity longer than the position) the call prints the error and returns
  with the velocity already changed.
\<close>

definition Target_Update ::
  "Target \<Rightarrow> real \<Rightarrow> real list \<Rightarrow> rand \<Rightarrow> (Target \<times> rand) option" where
  "Target_Update t deltaTime bnds r =
     (let dim = Vector_Dimension (target_position t) in
      if length bnds \<noteq> dim * 2 then Some (t, r)
      else if length (velocity t) < dim then None
      else
        let (vel1, r') = perturb_velocity [0..<dim] deltaTime (velocity t) r;
            vel2 = limit_speed vel1;
            deltaPos = Vector_MultiplyByScalar vel2 deltaTime
        in case Vector_Add (target_position t) deltaPos of
             Inl err \<Rightarrow> Some (t\<lparr>velocity := vel2\<rparr>, r')
           | Inr newPos \<Rightarrow>
               let (newPos', vel3) = bounce [0..<dim] bnds newPos vel2
               in Some (t\<lparr>target_position := newPos', velocity := vel3\<rparr>, r'))"

definition Sensor_Update :: "Sensor \<Rightarrow> real \<Rightarrow> real list \<Rightarrow> Sensor" where
  "Sensor_Update s deltaTime bnds = s"

fun Update ::
  "SimulationObject \<Rightarrow> real \<Rightarrow> real list \<Rightarrow> rand \<Rightarrow> (SimulationObject \<times> rand) option" where
  "Update (SensorObj s) deltaTime bnds r = Some (SensorObj (Sensor_Update s deltaTime bnds), r)"
| "Update (TargetObj t) deltaTime bnds r =
     (case Target_Update t deltaTime bnds r of
        None \<Rightarrow> None
      | Some (t', r') \<Rightarrow> Some (TargetObj t', r'))"

section \<open>Package simulation: the engine\<close>

text \<open>
  The three maps of objects hold pointers: \<^verbatim>\<open>AddObject\<close> stores the same pointer
  under the same identifier in \<^verbatim>\<open>objects\<close> and in \<^verbatim>\<open>sensors\<close> or \<^verbatim>\<open>targets\<close>. The
  model keeps the object's value in each map, and a write through the pointer
  (\<open>write_object\<close>) changes all the maps that hold it. \<^verbatim>\<open>tickDuration\<close> is a
  number of nanoseconds.
\<close>

record Simulation =
  dimension :: int
  bounds :: "real list"
  objects :: "string \<rightharpoonup> SimulationObject"
  sensors :: "string \<rightharpoonup> Sensor"
  targets :: "string \<rightharpoonup> Target"
  simulationTime :: real
  tickDuration :: int
  lastEstimates :: "string \<rightharpoonup> Solution"
  lastErrors :: "string \<rightharpoonup> real"

definition NewSimulation :: "int \<Rightarrow> real list \<Rightarrow> int \<Rightarrow> error + Simulation" where
  "NewSimulation dimension' bounds' tickDuration' =
     (if int (length bounds') \<noteq> wrap64 (dimension' * 2) \<and> dimension' > 0
      then Inl ConfigurationError
      else if dimension' < 0 then Inl ConfigurationError
      else Inr \<lparr>dimension = dimension', bounds = bounds', objects = Map.empty,
                sensors = Map.empty, targets = Map.empty, simulationTime = 0,
                tickDuration = tickDuration', lastEstimates = Map.empty,
                lastErrors = Map.empty\<rparr>)"

text \<open>The value stored for a target without an estimate.\<close>

definition sentinel :: Solution where
  "sentinel = \<lparr>Position = None, ResidualError = - 1\<rparr>"

text \<open>
  \<^verbatim>\<open>AddObject\<close> returns only an error; on an error the engine is unchanged, and
  \<open>Inr\<close> carries the engine after the call.
\<close>

definition AddObject :: "Simulation \<Rightarrow> SimulationObject \<Rightarrow> error + Simulation" where
  "AddObject s obj =
     (if int (Vector_Dimension (GetPosition obj)) \<noteq> dimension s then Inl DimensionMismatch
      else
        let k = GetID obj in
        if objects s k \<noteq> None then Inl DuplicateIdentifier
        else
          let s1 = s\<lparr>objects := (objects s)(k \<mapsto> obj)\<rparr> in
          Inr (case obj of
                 SensorObj v \<Rightarrow> s1\<lparr>sensors := (sensors s1)(k \<mapsto> v)\<rparr>
               | TargetObj v \<Rightarrow>
                   s1\<lparr>targets := (targets s1)(k \<mapsto> v),
                      lastEstimates := (lastEstimates s1)(k \<mapsto> sentinel),
                      lastErrors := (lastErrors s1)(k \<mapsto> - 1)\<rparr>))"

definition GetObject :: "Simulation \<Rightarrow> string \<Rightarrow> SimulationObject option" where
  "GetObject s k = objects s k"

text \<open>
  The two accessors return the zero value and \<^verbatim>\<open>false\<close> for a key the map does
  not hold.
\<close>

definition GetLastEstimate :: "Simulation \<Rightarrow> string \<Rightarrow> Solution \<times> bool" where
  "GetLastEstimate s targetID =
     (case lastEstimates s targetID of
        Some sol \<Rightarrow> (sol, True)
      | None \<Rightarrow> (emptySolution, False))"

definition GetLastLocalizationError :: "Simulation \<Rightarrow> string \<Rightarrow> real \<times> bool" where
  "GetLastLocalizationError s targetID =
     (case lastErrors s targetID of
        Some errVal \<Rightarrow> (errVal, True)
      | None \<Rightarrow> (0, False))"

definition GetCurrentTime :: "Simulation \<Rightarrow> real" where
  "GetCurrentTime s = simulationTime s"

definition GetDimension :: "Simulation \<Rightarrow> int" where
  "GetDimension s = dimension s"

subsection \<open>Step\<close>

text \<open>
  Go visits the keys of a map in an order it chooses anew for every \<^verbatim>\<open>range\<close>
  loop. The orders are an input of the model: the order of the objects in the
  update loop, the order of the targets, and for each target the order of the
  sensors.
\<close>

record Schedule =
  objOrder :: "string list"
  tgtOrder :: "string list"
  senOrder :: "string \<Rightarrow> string list"

definition schedule_of :: "Simulation \<Rightarrow> Schedule \<Rightarrow> bool" where
  "schedule_of s sched =
     (distinct (objOrder sched) \<and> set (objOrder sched) = dom (objects s) \<and>
      distinct (tgtOrder sched) \<and> set (tgtOrder sched) = dom (targets s) \<and>
      (\<forall>k. distinct (senOrder sched k) \<and> set (senOrder sched k) = dom (sensors s)))"

definition write_object :: "string \<Rightarrow> SimulationObject \<Rightarrow> Simulation \<Rightarrow> Simulation" where
  "write_object k obj s =
     (case obj of
        SensorObj v \<Rightarrow> s\<lparr>objects := (objects s)(k \<mapsto> obj), sensors := (sensors s)(k \<mapsto> v)\<rparr>
      | TargetObj v \<Rightarrow> s\<lparr>objects := (objects s)(k \<mapsto> obj), targets := (targets s)(k \<mapsto> v)\<rparr>)"

text \<open>The first loop of \<^verbatim>\<open>Step\<close>: every object is updated in place.\<close>

fun update_objects ::
  "string list \<Rightarrow> real \<Rightarrow> Simulation \<Rightarrow> rand \<Rightarrow> (Simulation \<times> rand) option" where
  "update_objects [] deltaTime s r = Some (s, r)"
| "update_objects (k # ks) deltaTime s r =
     (case objects s k of
        None \<Rightarrow> update_objects ks deltaTime s r
      | Some obj \<Rightarrow>
          (case Update obj deltaTime (bounds s) r of
             None \<Rightarrow> None
           | Some (obj', r') \<Rightarrow> update_objects ks deltaTime (write_object k obj' s) r'))"

text \<open>
  The inner loop over the sensors: a measurement whose distance computation
  fails is skipped, one in range is appended.
\<close>

fun collect_measurements ::
  "string list \<Rightarrow> Simulation \<Rightarrow> Target \<Rightarrow> rand \<Rightarrow> Measurement list \<times> rand" where
  "collect_measurements [] s tar r = ([], r)"
| "collect_measurements (k # ks) s tar r =
     (case sensors s k of
        None \<Rightarrow> collect_measurements ks s tar r
      | Some sen \<Rightarrow>
          let ((d, inRange, err), r') = Sensor_MeasureDistance sen (TargetObj tar) r in
          if err \<noteq> None then collect_measurements ks s tar r'
          else if inRange
          then let (rest, r'') = collect_measurements ks s tar r' in
               (\<lparr>SensorPosition = Sensor_GetPosition sen, Distance = d\<rparr> # rest, r'')
          else collect_measurements ks s tar r')"

text \<open>The body of the loop over the targets.\<close>

definition localize ::
  "qr_solver \<Rightarrow> string list \<Rightarrow> Simulation \<Rightarrow> Target \<Rightarrow> rand \<Rightarrow> (Simulation \<times> rand) option" where
  "localize solver sensorOrder s tar r =
     (let targetID = Target_GetID tar;
          (targetMeasurements, r') = collect_measurements sensorOrder s tar r;
          requiredMeasurements = wrap64 (dimension s + 1)
      in if int (length targetMeasurements) \<ge> requiredMeasurements
         then (case SolveLeastSquares solver targetMeasurements (dimension s) of
                 None \<Rightarrow> None
               | Some (solution, err) \<Rightarrow>
                   if err = None
                   then
                     let truePos = Target_GetPosition tar;
                         (localizationErr, distErr) =
                           CalculateLocalizationError (Some truePos) (Position solution)
                     in Some (s\<lparr>lastEstimates := (lastEstimates s)(targetID \<mapsto> solution),
                                 lastErrors := (lastErrors s)(targetID \<mapsto>
                                   (if distErr = None then localizationErr else - 1))\<rparr>, r')
                   else Some (s\<lparr>lastEstimates := (lastEstimates s)(targetID \<mapsto> sentinel),
                                lastErrors := (lastErrors s)(targetID \<mapsto> - 1)\<rparr>, r'))
         else Some (s\<lparr>lastEstimates := (lastEstimates s)(targetID \<mapsto> sentinel),
                      lastErrors := (lastErrors s)(targetID \<mapsto> - 1)\<rparr>, r'))"

fun localize_targets ::
  "qr_solver \<Rightarrow> string list \<Rightarrow> (string \<Rightarrow> string list) \<Rightarrow> Simulation \<Rightarrow> rand
     \<Rightarrow> (Simulation \<times> rand) option" where
  "localize_targets solver [] sensorOrder s r = Some (s, r)"
| "localize_targets solver (k # ks) sensorOrder s r =
     (case targets s k of
        None \<Rightarrow> localize_targets solver ks sensorOrder s r
      | Some tar \<Rightarrow>
          (case localize solver (sensorOrder k) s tar r of
             None \<Rightarrow> None
           | Some (s', r') \<Rightarrow> localize_targets solver ks sensorOrder s' r'))"

definition Step ::
  "qr_solver \<Rightarrow> Schedule \<Rightarrow> Simulation \<Rightarrow> real \<Rightarrow> rand \<Rightarrow> (Simulation \<times> rand) option" where
  "Step solver sched s deltaTime r =
     (let s1 = s\<lparr>simulationTime := simulationTime s + deltaTime\<rparr> in
      case update_objects (objOrder sched) deltaTime s1 r of
        None \<Rightarrow> None
      | Some (s2, r2) \<Rightarrow> localize_targets solver (tgtOrder sched) (senOrder sched) s2 r2)"

text \<open>
  The body of the loop over the targets once more, with the call of
  \<^verbatim>\<open>multilateration.SolveLeastSquares\<close> left open: any function can stand in its
  place, also one that panics on every call. A property of \<open>localize_with\<close> that
  holds for every such function, and gives a result, is a property of a run
  that does not reach the call. With \<open>SolveLeastSquares\<close> in the open place the
  body is \<open>localize\<close>.
\<close>

definition localize_with ::
  "(Measurement list \<Rightarrow> int \<Rightarrow> (Solution \<times> error option) option) \<Rightarrow> string list
     \<Rightarrow> Simulation \<Rightarrow> Target \<Rightarrow> rand \<Rightarrow> (Simulation \<times> rand) option" where
  "localize_with solve sensorOrder s tar r =
     (let targetID = Target_GetID tar;
          (targetMeasurements, r') = collect_measurements sensorOrder s tar r;
          requiredMeasurements = wrap64 (dimension s + 1)
      in if int (length targetMeasurements) \<ge> requiredMeasurements
         then (case solve targetMeasurements (dimension s) of
                 None \<Rightarrow> None
               | Some (solution, err) \<Rightarrow>
                   if err = None
                   then
                     let truePos = Target_GetPosition tar;
                         (localizationErr, distErr) =
                           CalculateLocalizationError (Some truePos) (Position solution)
                     in Some (s\<lparr>lastEstimates := (lastEstimates s)(targetID \<mapsto> solution),
                                 lastErrors := (lastErrors s)(targetID \<mapsto>
                                   (if distErr = None then localizationErr else - 1))\<rparr>, r')
                   else Some (s\<lparr>lastEstimates := (lastEstimates s)(targetID \<mapsto> sentinel),
                                lastErrors := (lastErrors s)(targetID \<mapsto> - 1)\<rparr>, r'))
         else Some (s\<lparr>lastEstimates := (lastEstimates s)(targetID \<mapsto> sentinel),
                      lastErrors := (lastErrors s)(targetID \<mapsto> - 1)\<rparr>, r'))"

text \<open>
  The engines a program can build: \<open>engine n s\<close> holds for an engine returned by
  \<^verbatim>\<open>NewSimulation\<close> (on a dimension that is a 64-bit integer) and taken through
  successful \<^verbatim>\<open>AddObject\<close> calls and \<open>n\<close> calls of \<^verbatim>\<open>Step\<close>, in any order, each
  \<^verbatim>\<open>Step\<close> with orders that enumerate the maps.
\<close>

inductive engine :: "nat \<Rightarrow> Simulation \<Rightarrow> bool" where
  engine_new:
    "- 9223372036854775808 \<le> dimension' \<Longrightarrow> dimension' < 9223372036854775808
       \<Longrightarrow> NewSimulation dimension' bounds' tickDuration' = Inr s \<Longrightarrow> engine 0 s"
| engine_add: "engine n s \<Longrightarrow> AddObject s obj = Inr s' \<Longrightarrow> engine n s'"
| engine_step:
    "engine n s \<Longrightarrow> schedule_of s sched \<Longrightarrow> Step solver sched s deltaTime r = Some (s', r')
       \<Longrightarrow> engine (Suc n) s'"

subsection \<open>What the engine maintains\<close>

text \<open>
  The facts about the maps that every engine satisfies: an object is stored under
  its own identifier, \<^verbatim>\<open>sensors\<close> and \<^verbatim>\<open>targets\<close> are the sensors and the targets of
  \<^verbatim>\<open>objects\<close>, the two maps of results have the keys of \<^verbatim>\<open>targets\<close>, every position
  has the engine's dimension, and the dimension is small enough for
  \<^verbatim>\<open>dimension+1\<close> not to wrap.
\<close>

definition engine_inv :: "Simulation \<Rightarrow> bool" where
  "engine_inv s =
     ((\<forall>k obj. objects s k = Some obj \<longrightarrow>
          GetID obj = k \<and> int (length (GetPosition obj)) = dimension s) \<and>
      (\<forall>k t. (targets s k = Some t) = (objects s k = Some (TargetObj t))) \<and>
      (\<forall>k v. (sensors s k = Some v) = (objects s k = Some (SensorObj v))) \<and>
      dom (lastEstimates s) = dom (targets s) \<and>
      dom (lastErrors s) = dom (targets s) \<and>
      0 \<le> dimension s \<and> dimension s < 4611686018427387904)"

text \<open>
  A target's stored pair is in step: an estimate with a position beside an error
  that is a distance, or the sentinel beside \<open>- 1\<close>.
\<close>

definition in_sync :: "Simulation \<Rightarrow> string \<Rightarrow> bool" where
  "in_sync s k =
     (case (lastEstimates s k, lastErrors s k) of
        (Some est, Some e) \<Rightarrow>
          (Position est \<noteq> None \<and> 0 \<le> e) \<or> (est = sentinel \<and> e = - 1)
      | _ \<Rightarrow> False)"

text \<open>
  A sensor has a target in range when their dimensions agree and the true
  distance does not exceed a positive detection radius; the sensors of the
  engine that have the target in range, in the order they are visited.
\<close>

definition in_range :: "Sensor \<Rightarrow> Target \<Rightarrow> bool" where
  "in_range sen tar =
     (length (sensor_position sen) = length (target_position tar) \<and>
      \<not> (detectionRadius sen > 0 \<and>
         fst (Vector_Distance (sensor_position sen) (target_position tar))
           > detectionRadius sen))"

definition sensors_in_range :: "Simulation \<Rightarrow> Target \<Rightarrow> string list \<Rightarrow> string list" where
  "sensors_in_range s tar sensorOrder =
     filter (\<lambda>k. case sensors s k of None \<Rightarrow> False | Some sen \<Rightarrow> in_range sen tar)
       sensorOrder"

text \<open>
  Two conditions under which \<open>Step\<close> cannot panic: the library's solve returns
  candidates with one entry per column of the matrix, and every target has a
  velocity of its position's length, as \<open>NewTarget\<close> builds it.
\<close>

definition solver_ok :: "qr_solver \<Rightarrow> bool" where
  "solver_ok solver =
     (\<forall>A b x. solver A b = Some x \<longrightarrow> (\<forall>row \<in> set A. length row = length x))"

definition velocities_ok :: "Simulation \<Rightarrow> bool" where
  "velocities_ok s =
     (\<forall>k t. objects s k = Some (TargetObj t) \<longrightarrow>
        length (velocity t) = length (target_position t))"

section \<open>Vectors as references: what an accessor hands out\<close>

text \<open>
  A Go vector is a slice: a reference to an array that every copy of the slice
  shares. The definitions above treat vectors as values, which is sound inside
  the engine (it never keeps two references to one array) but cannot say what a
  caller reaches through a vector an accessor returned. For the accessors the
  arrays are therefore kept in a store, a vector is the address of its array
  (\<open>None\<close> the nil slice), and an allocation takes the next free address.
\<close>

type_synonym heap = "real list list"

definition heap_alloc :: "heap \<Rightarrow> real list \<Rightarrow> nat \<times> heap" where
  "heap_alloc h xs = (length h, h @ [xs])"

definition heap_read :: "heap \<Rightarrow> nat option \<Rightarrow> Vector option" where
  "heap_read h v =
     (case v of
        None \<Rightarrow> None
      | Some a \<Rightarrow> if a < length h then Some (h ! a) else None)"

text \<open>The caller's assignment \<^verbatim>\<open>v[i] = x\<close>; \<open>None\<close> when it panics.\<close>

definition heap_write :: "heap \<Rightarrow> nat option \<Rightarrow> nat \<Rightarrow> real \<Rightarrow> heap option" where
  "heap_write h v i x =
     (case v of
        None \<Rightarrow> None
      | Some a \<Rightarrow>
          if a < length h \<and> i < length (h ! a) then Some (h[a := (h ! a)[i := x]])
          else None)"

text \<open>\<^verbatim>\<open>Clone\<close>: \<^verbatim>\<open>make\<close> a new array and \<^verbatim>\<open>copy\<close> the elements into it.\<close>

definition Clone_ref :: "heap \<Rightarrow> nat option \<Rightarrow> nat option \<times> heap" where
  "Clone_ref h v =
     (let elements = (case heap_read h v of None \<Rightarrow> [] | Some xs \<Rightarrow> xs);
          (a, h') = heap_alloc h elements
      in (Some a, h'))"

record Target_ref =
  position_ref :: "nat option"
  velocity_ref :: "nat option"

record Solution_ref =
  Position_ref :: "nat option"
  ResidualError_ref :: real

definition Target_GetPosition_ref :: "heap \<Rightarrow> Target_ref \<Rightarrow> nat option \<times> heap" where
  "Target_GetPosition_ref h t = Clone_ref h (position_ref t)"

text \<open>
  What a successful localization leaves in the engine: \<^verbatim>\<open>SolveLeastSquares\<close>
  copies the candidate into a new vector (\<^verbatim>\<open>resultVector\<close>), and \<^verbatim>\<open>Step\<close> stores
  the solution holding that vector under the target's identifier.
\<close>

definition store_solution ::
  "heap \<Rightarrow> (string \<rightharpoonup> Solution_ref) \<Rightarrow> string \<Rightarrow> Vector \<Rightarrow> real
     \<Rightarrow> (string \<rightharpoonup> Solution_ref) \<times> heap" where
  "store_solution h estimates targetID x residual =
     (let (a, h') = heap_alloc h x in
      (estimates(targetID \<mapsto> \<lparr>Position_ref = Some a, ResidualError_ref = residual\<rparr>), h'))"

text \<open>
  \<^verbatim>\<open>GetLastEstimate\<close> returns the stored struct: the slice in its \<^verbatim>\<open>Position\<close>
  field is copied as a reference, not cloned.
\<close>

definition GetLastEstimate_ref ::
  "(string \<rightharpoonup> Solution_ref) \<Rightarrow> string \<Rightarrow> Solution_ref \<times> bool" where
  "GetLastEstimate_ref estimates targetID =
     (case estimates targetID of
        Some sol \<Rightarrow> (sol, True)
      | None \<Rightarrow> (\<lparr>Position_ref = None, ResidualError_ref = 0\<rparr>, False))"

section \<open>An engine in one dimension\<close>

text \<open>
  The engine used to instantiate the theorems below: the interval \<open>[0, 10]\<close>, two
  sensors of radius 7 at its ends and a target at 4. In the first step the
  target does not move and is localized; in the second it moves to 9, out of the
  first sensor's range.
\<close>

definition demo_sensor_a :: Sensor where
  "demo_sensor_a = \<lparr>sensor_id = ''sensor-a'', sensor_position = [0], detectionRadius = 7,
                     noiseFunc = None\<rparr>"

definition demo_sensor_b :: Sensor where
  "demo_sensor_b = \<lparr>sensor_id = ''sensor-b'', sensor_position = [10], detectionRadius = 7,
                     noiseFunc = None\<rparr>"

definition demo_target :: Target where
  "demo_target = \<lparr>target_id = ''target-1'', target_position = [4], velocity = [0]\<rparr>"

definition demo_target_moved :: Target where
  "demo_target_moved = \<lparr>target_id = ''target-1'', target_position = [9], velocity = [5]\<rparr>"

definition demo_engine0 :: Simulation where
  "demo_engine0 = \<lparr>dimension = 1, bounds = [0, 10], objects = Map.empty,
                    sensors = Map.empty, targets = Map.empty, simulationTime = 0,
                    tickDuration = 100000000, lastEstimates = Map.empty,
                    lastErrors = Map.empty\<rparr>"

definition demo_engine1 :: Simulation where
  "demo_engine1 = demo_engine0
     \<lparr>objects := [''sensor-a'' \<mapsto> SensorObj demo_sensor_a],
      sensors := [''sensor-a'' \<mapsto> demo_sensor_a]\<rparr>"

definition demo_engine2 :: Simulation where
  "demo_engine2 = demo_engine0
     \<lparr>objects := [''sensor-a'' \<mapsto> SensorObj demo_sensor_a,
                  ''sensor-b'' \<mapsto> SensorObj demo_sensor_b],
      sensors := [''sensor-a'' \<mapsto> demo_sensor_a, ''sensor-b'' \<mapsto> demo_sensor_b]\<rparr>"

definition demo_engine3 :: Simulation where
  "demo_engine3 = demo_engine2
     \<lparr>objects := [''sensor-a'' \<mapsto> SensorObj demo_sensor_a,
                  ''sensor-b'' \<mapsto> SensorObj demo_sensor_b,
                  ''target-1'' \<mapsto> TargetObj demo_target],
      targets := [''target-1'' \<mapsto> demo_target],
      lastEstimates := [''target-1'' \<mapsto> sentinel],
      lastErrors := [''target-1'' \<mapsto> - 1]\<rparr>"

definition demo_engine4 :: Simulation where
  "demo_engine4 = demo_engine3
     \<lparr>simulationTime := 1 / 10,
      lastEstimates := [''target-1'' \<mapsto> \<lparr>Position = Some [4], ResidualError = 0\<rparr>],
      lastErrors := [''target-1'' \<mapsto> 0]\<rparr>"

definition demo_engine5 :: Simulation where
  "demo_engine5 = demo_engine4
     \<lparr>objects := [''sensor-a'' \<mapsto> SensorObj demo_sensor_a,
                  ''sensor-b'' \<mapsto> SensorObj demo_sensor_b,
                  ''target-1'' \<mapsto> TargetObj demo_target_moved],
      targets := [''target-1'' \<mapsto> demo_target_moved],
      simulationTime := 11 / 10\<rparr>"

definition demo_engine6 :: Simulation where
  "demo_engine6 = demo_engine5
     \<lparr>lastEstimates := [''target-1'' \<mapsto> sentinel],
      lastErrors := [''target-1'' \<mapsto> - 1]\<rparr>"

definition demo_schedule :: Schedule where
  "demo_schedule = \<lparr>objOrder = [''sensor-a'', ''target-1'', ''sensor-b''],
                     tgtOrder = [''target-1''],
                     senOrder = (\<lambda>k. [''sensor-a'', ''sensor-b''])\<rparr>"

text \<open>A solver that knows the solution of the one system the first step builds.\<close>

definition demo_solver :: qr_solver where
  "demo_solver A b = (if A = [[20]] \<and> b = [80] then Some [4] else None)"

section \<open>Properties of the solver\<close>

lemma wrap64_id:
  "- 9223372036854775808 \<le> k \<Longrightarrow> k < 9223372036854775808 \<Longrightarrow> wrap64 k = k"
  unfolding wrap64_def by simp

lemma NormSq_sum: "Vector_NormSq v = (\<Sum>j<length v. (v ! j)\<^sup>2)"
  unfolding Vector_NormSq_def
  by (simp add: sum_list_sum_nth power2_eq_square atLeast0LessThan)

lemma scaled_row:
  assumes "length sensorPos = length refPos" "length refPos = D"
  shows "take D (Vector_MultiplyByScalar (map2 (\<lambda>a b. a - b) refPos sensorPos) 2)
           = matrix_row refPos sensorPos D"
  using assms
  by (auto simp: Vector_MultiplyByScalar_def matrix_row_def intro!: nth_equalityI)

text \<open>
  On sensor positions of the reference's dimension the loop neither fails nor
  panics, and it builds one row and one entry per measurement.
\<close>

lemma equations_Inr:
  assumes "\<forall>m \<in> set ms. length (SensorPosition m) = length refPos"
      and "int (length refPos) = D"
  shows "equations refPos rdsq rnsq D ms =
           Some (Inr (map (\<lambda>m. matrix_row refPos (SensorPosition m) (nat D)) ms,
                      map (\<lambda>m. (if Distance m < 0 then 0 else Distance m)
                                  * (if Distance m < 0 then 0 else Distance m)
                                - rdsq - Vector_NormSq (SensorPosition m) + rnsq) ms))"
  using assms
proof (induction ms)
  case Nil
  then show ?case by simp
next
  case (Cons m ms)
  have len: "length (SensorPosition m) = length refPos" using Cons.prems by simp
  have D: "nat D = length refPos" using Cons.prems by auto
  have row: "take (nat D) (Vector_MultiplyByScalar
               (map2 (\<lambda>a b. a - b) refPos (SensorPosition m)) 2)
           = matrix_row refPos (SensorPosition m) (nat D)"
    using scaled_row[OF len, of "nat D"] D by simp
  have IH: "equations refPos rdsq rnsq D ms =
           Some (Inr (map (\<lambda>m. matrix_row refPos (SensorPosition m) (nat D)) ms,
                      map (\<lambda>m. (if Distance m < 0 then 0 else Distance m)
                                  * (if Distance m < 0 then 0 else Distance m)
                                - rdsq - Vector_NormSq (SensorPosition m) + rnsq) ms))"
    using Cons by simp
  have sc: "length (Vector_MultiplyByScalar
              (map2 (\<lambda>a b. a - b) refPos (SensorPosition m)) 2) = length refPos"
    using len by (simp add: Vector_MultiplyByScalar_def)
  show ?case
    using len Cons.prems(2) row sc
    by (simp add: IH Let_def Vector_Subtract_def Vector_Dimension_def)
qed

lemma dot_sum:
  "length row = length x \<Longrightarrow>
   sum_list (map2 (\<lambda>a c. a * c) row x) = (\<Sum>j<length x. row ! j * x ! j)"
  by (simp add: sum_list_sum_nth atLeast0LessThan)

lemma Nrm2_residual:
  assumes "length A = length b" and "\<forall>row \<in> set A. length row = length x"
  shows "Nrm2 (SubVec b (MulVec A x)) = residual_norm A b x"
proof -
  have "sum_list (map (\<lambda>c. c * c) (SubVec b (MulVec A x)))
          = (\<Sum>i<length b. (b ! i - (\<Sum>j<length x. A ! i ! j * x ! j))\<^sup>2)"
    using assms
    by (simp add: SubVec_def MulVec_def sum_list_sum_nth atLeast0LessThan
          power2_eq_square dot_sum)
  then show ?thesis by (simp add: Nrm2_def residual_norm_def)
qed

text \<open>
  On \<open>m \<ge> D + 1\<close> measurements of dimension \<open>D \<ge> 1\<close> with distances \<open>\<ge> 0\<close> the
  function builds the specification's system and follows the library's solve: an
  error of the solve is returned as a failure beside the empty solution, a
  candidate becomes the solution. The function has no rank test of its own
  (\<^verbatim>\<open>rank := dimension\<close>) and \<^verbatim>\<open>Solution\<close> has no field for a confidence, so a
  rank-deficient system is reported exactly when the library reports it.
\<close>

lemma SolveLeastSquares_follows_solver:
  assumes "1 \<le> D" and "D < 9223372036854775807"
      and "D + 1 \<le> int (length ms)"
      and "\<forall>m \<in> set ms. length (SensorPosition m) = nat D \<and> 0 \<le> Distance m"
      and "linear_system ms (nat D) = (A, b)"
  shows "SolveLeastSquares solver ms D =
           (case solver A b of
              None \<Rightarrow> Some (emptySolution, Some SolveFailure)
            | Some x \<Rightarrow>
                if int (length x) \<noteq> D then None
                else Some (\<lparr>Position = Some x,
                            ResidualError =
                              residual_norm A b x / sqrt (real (length ms - 1))\<rparr>, None))"
proof -
  have ne: "ms \<noteq> []" using assms(1,3) by auto
  have w: "wrap64 (D + 1) = D + 1"
    using assms(1,2) by (intro wrap64_id) linarith+
  let ?ref = "last ms"
  have refin: "?ref \<in> set ms" using ne by simp
  have reflen: "int (length (SensorPosition ?ref)) = D" using assms(1,4) refin by auto
  have refd: "0 \<le> Distance ?ref" using assms(4) refin by auto
  have others: "\<forall>m \<in> set (butlast ms).
                  length (SensorPosition m) = length (SensorPosition ?ref)"
    using assms(4) refin by (auto dest: in_set_butlastD)
  have dnn: "\<forall>m \<in> set (butlast ms). 0 \<le> Distance m"
    using assms(4) by (auto dest: in_set_butlastD)
  have Aeq: "A = map (\<lambda>m. matrix_row (SensorPosition ?ref) (SensorPosition m) (nat D))
                   (butlast ms)"
    and beq: "b = map (\<lambda>m. rhs_entry (SensorPosition ?ref) (Distance ?ref)
                              (SensorPosition m) (Distance m)) (butlast ms)"
    using assms(5) by (auto simp: linear_system_def Let_def)
  have rhs: "map (\<lambda>m. (if Distance m < 0 then 0 else Distance m)
                        * (if Distance m < 0 then 0 else Distance m)
                      - Distance ?ref * Distance ?ref - Vector_NormSq (SensorPosition m)
                      + Vector_NormSq (SensorPosition ?ref)) (butlast ms) = b"
    unfolding beq using dnn
    by (auto simp: rhs_entry_def NormSq_sum power2_eq_square)
  have eqs: "equations (SensorPosition ?ref) (Distance ?ref * Distance ?ref)
               (Vector_NormSq (SensorPosition ?ref)) D (butlast ms) = Some (Inr (A, b))"
    using equations_Inr[OF others reflen] rhs Aeq by simp
  have lenA: "length A = length b" using Aeq beq by simp
  have n1: "length ms - 1 \<noteq> 0" "\<not> int (length ms - 1) < D"
    "\<not> int (length ms - 1) * D < 0"
    using assms(1,3) by (auto simp: mult_less_0_iff)
  show ?thesis
  proof (cases "solver A b")
    case None
    then show ?thesis
      using assms(1,3) ne refd n1 by (simp add: SolveLeastSquares_def w Let_def eqs)
  next
    case (Some x)
    show ?thesis
    proof (cases "int (length x) = D")
      case False
      then show ?thesis
        using assms(1,3) ne refd n1 Some by (simp add: SolveLeastSquares_def w Let_def eqs)
    next
      case True
      then have lx: "length x = nat D" by simp
      have rows: "\<forall>row \<in> set A. length row = length x"
        using Aeq lx by (auto simp: matrix_row_def)
      have res: "Nrm2 (SubVec b (MulVec A x)) = residual_norm A b x"
        by (rule Nrm2_residual[OF lenA rows])
      show ?thesis
        using assms(1,3) ne refd n1 Some True lx
        by (simp add: SolveLeastSquares_def w Let_def eqs res)
    qed
  qed
qed

text \<open>
  Claim C2 therefore rests on the library. When its solve returns an error on
  every rank-deficient matrix, a rank-deficient system ends in a failure beside
  the empty solution.
\<close>

lemma SolveLeastSquares_rank_deficient_reported:
  assumes "1 \<le> D" and "D < 9223372036854775807"
      and "D + 1 \<le> int (length ms)"
      and "\<forall>m \<in> set ms. length (SensorPosition m) = nat D \<and> 0 \<le> Distance m"
      and "linear_system ms (nat D) = (A, b)"
      and "rank_deficient A (nat D)"
      and "\<forall>A' b'. rank_deficient A' (nat D) \<longrightarrow> solver A' b' = None"
  shows "SolveLeastSquares solver ms D = Some (emptySolution, Some SolveFailure)"
  using SolveLeastSquares_follows_solver[OF assms(1-5), of solver] assms(6,7) by simp

text \<open>
  When a solve answers on a rank-deficient matrix, the answer is returned as a
  solution like any other: for two sensors at the same point the matrix is
  \<open>[[0]]\<close>, and a solve that answers 7 gives the position 7 with residual 0.
\<close>

lemma rank_deficient_example: "rank_deficient [[0]] 1"
  unfolding rank_deficient_def by (rule exI[of _ "[1]"]) simp

lemma linear_system_coincident:
  "linear_system [\<lparr>SensorPosition = [5], Distance = 1\<rparr>, \<lparr>SensorPosition = [5], Distance = 1\<rparr>]
     (nat 1) = ([[0]], [0])"
  by (simp add: linear_system_def matrix_row_def rhs_entry_def Let_def)

lemma SolveLeastSquares_rank_deficient_silent:
  "SolveLeastSquares (\<lambda>A b. Some [7])
     [\<lparr>SensorPosition = [5], Distance = 1\<rparr>, \<lparr>SensorPosition = [5], Distance = 1\<rparr>] 1
   = Some (\<lparr>Position = Some [7], ResidualError = 0\<rparr>, None)"
  using SolveLeastSquares_follows_solver
    [of 1 "[\<lparr>SensorPosition = [5], Distance = 1\<rparr>, \<lparr>SensorPosition = [5], Distance = 1\<rparr>]"
        "[[0]]" "[0]" "\<lambda>A b. Some [7]", OF _ _ _ _ linear_system_coincident]
  by (simp add: residual_norm_def)

text \<open>
  Claim C1. Let \<open>ms\<close> be \<open>m \<ge> D + 1\<close> measurements with sensor positions of
  dimension \<open>D \<ge> 1\<close> and distances \<open>\<ge> 0\<close>, and let \<open>(A, b)\<close> be the specification's
  linear system: the last measurement is the reference, and each other
  measurement \<open>i\<close> gives the row \<open>2 (refPos - sensorPos\<^sub>i)\<close> and the right-hand side
  \<open>dist\<^sub>i\<^sup>2 - refDist\<^sup>2 - \<parallel>sensorPos\<^sub>i\<parallel>\<^sup>2 + \<parallel>refPos\<parallel>\<^sup>2\<close>. Then \<open>SolveLeastSquares\<close> hands
  exactly \<open>A\<close> and \<open>b\<close> to the library's QR least-squares solve, and when the solve
  returns the candidate \<open>x\<close> it returns the solution with position \<open>x\<close> and residual
  error \<open>\<parallel>b - A x\<parallel>\<^sub>2 / sqrt (m - 1)\<close>, and no error.
\<close>

theorem SolveLeastSquares_linear_system:
  assumes "1 \<le> D" and "D < 9223372036854775807"
      and "D + 1 \<le> int (length ms)"
      and "\<forall>m \<in> set ms. length (SensorPosition m) = nat D \<and> 0 \<le> Distance m"
      and "linear_system ms (nat D) = (A, b)"
      and "solver A b = Some x" and "length x = nat D"
  shows "SolveLeastSquares solver ms D =
           Some (\<lparr>Position = Some x,
                  ResidualError = residual_norm A b x / sqrt (real (length ms - 1))\<rparr>, None)"
  using SolveLeastSquares_follows_solver[OF assms(1-5), of solver] assms(1,6,7) by simp

lemma linear_system_example:
  "linear_system
     [\<lparr>SensorPosition = [0, 0], Distance = 5\<rparr>, \<lparr>SensorPosition = [3, 0], Distance = 4\<rparr>,
      \<lparr>SensorPosition = [0, 4], Distance = 3\<rparr>] (nat 2) = ([[0, 8], [- 6, 8]], [32, 14])"
  by (simp add: linear_system_def matrix_row_def rhs_entry_def Let_def numeral_2_eq_2
        lessThan_Suc)

lemma residual_norm_example: "residual_norm [[0, 8], [- 6, 8]] [32, 14] [3, 4] = 0"
  by (simp add: residual_norm_def numeral_2_eq_2 lessThan_Suc)

text \<open>
  Sensors at \<open>(0,0)\<close>, \<open>(3,0)\<close> and \<open>(0,4)\<close> at distances 5, 4 and 3 from the point
  \<open>(3,4)\<close>; the solver returns the exact solution of the system.
\<close>

theorem SolveLeastSquares_linear_system_witness:
  "SolveLeastSquares
     (\<lambda>A b. if A = [[0, 8], [- 6, 8]] \<and> b = [32, 14] then Some [3, 4] else None)
     [\<lparr>SensorPosition = [0, 0], Distance = 5\<rparr>, \<lparr>SensorPosition = [3, 0], Distance = 4\<rparr>,
      \<lparr>SensorPosition = [0, 4], Distance = 3\<rparr>] 2
     = Some (\<lparr>Position = Some [3, 4], ResidualError = 0\<rparr>, None)"
  using SolveLeastSquares_linear_system
    [of 2 "[\<lparr>SensorPosition = [0, 0], Distance = 5\<rparr>,
            \<lparr>SensorPosition = [3, 0], Distance = 4\<rparr>,
            \<lparr>SensorPosition = [0, 4], Distance = 3\<rparr>]" "[[0, 8], [- 6, 8]]" "[32, 14]"
      "\<lambda>A b. if A = [[0, 8], [- 6, 8]] \<and> b = [32, 14] then Some [3, 4] else None" "[3, 4]",
     OF _ _ _ _ linear_system_example]
  by (simp add: residual_norm_example)

text \<open>
  Claim C6. With fewer than \<open>D + 1\<close> measurements (and \<open>D\<close> below the largest
  64-bit integer, so that \<open>D + 1\<close> does not wrap) \<open>SolveLeastSquares\<close> returns the
  empty solution, whose position is nil, together with the error for
  insufficient measurements, whatever the solver is.
\<close>

theorem SolveLeastSquares_insufficient:
  assumes "int (length measurements) < D + 1"
      and "D < 9223372036854775807"
  shows "SolveLeastSquares solver measurements D
           = Some (emptySolution, Some InsufficientMeasurements)
         \<and> Position emptySolution = None"
proof -
  have "wrap64 (D + 1) = D + 1"
    using assms by (intro wrap64_id) linarith+
  then show ?thesis
    using assms by (simp add: SolveLeastSquares_def emptySolution_def)
qed

theorem SolveLeastSquares_insufficient_witness:
  "SolveLeastSquares (\<lambda>A b. Some [0, 0])
     [\<lparr>SensorPosition = [0, 0], Distance = 5\<rparr>, \<lparr>SensorPosition = [3, 0], Distance = 4\<rparr>] 2
     = Some (emptySolution, Some InsufficientMeasurements)
   \<and> Position emptySolution = None"
  using SolveLeastSquares_insufficient
    [of "[\<lparr>SensorPosition = [0, 0], Distance = 5\<rparr>,
          \<lparr>SensorPosition = [3, 0], Distance = 4\<rparr>]" 2 "\<lambda>A b. Some [0, 0]"]
  by simp

section \<open>Construction of the engine\<close>

lemma wrap64_double_neg:
  assumes "4611686018427387904 \<le> D" and "D < 9223372036854775808"
  shows "wrap64 (D * 2) < 0"
proof -
  have "(D * 2 + 9223372036854775808) mod 18446744073709551616
          = D * 2 + 9223372036854775808 - 18446744073709551616"
    using assms by (intro int_mod_pos_eq[where q = 1]) linarith+
  then show ?thesis using assms(2) unfolding wrap64_def by linarith
qed

text \<open>
  Claim C3 as the code has it. For a dimension \<open>D\<close> that is a 64-bit integer and a
  slice of bounds, \<open>NewSimulation\<close> succeeds exactly when \<open>D = 0\<close> (with bounds of
  any length) or \<open>D \<ge> 1\<close> and there are \<open>2 D\<close> bounds; it never compares a
  minimum with its maximum. Every other call fails with the configuration error
  and returns no engine; a successful call returns the engine with the given
  dimension and bounds and with empty maps.
\<close>

theorem NewSimulation_accepts:
  assumes "- 9223372036854775808 \<le> D" and "D < 9223372036854775808"
      and "int (length bnds) < 9223372036854775808"
  shows "NewSimulation D bnds tick =
           (if D = 0 \<or> (1 \<le> D \<and> int (length bnds) = 2 * D)
            then Inr \<lparr>dimension = D, bounds = bnds, objects = Map.empty,
                      sensors = Map.empty, targets = Map.empty, simulationTime = 0,
                      tickDuration = tick, lastEstimates = Map.empty,
                      lastErrors = Map.empty\<rparr>
            else Inl ConfigurationError)"
proof -
  consider "D \<le> 0" | "0 < D" "D < 4611686018427387904" | "4611686018427387904 \<le> D"
    by linarith
  then show ?thesis
  proof cases
    case 1
    then show ?thesis by (auto simp: NewSimulation_def)
  next
    case 2
    then have "wrap64 (D * 2) = D * 2" by (intro wrap64_id) linarith+
    then show ?thesis using 2 by (auto simp: NewSimulation_def)
  next
    case 3
    then have "wrap64 (D * 2) < 0" using wrap64_double_neg assms(2) by simp
    then show ?thesis using 3 assms(3) by (auto simp: NewSimulation_def)
  qed
qed

text \<open>
  Three dimensions with six bounds are accepted; two bounds for three dimensions
  and a negative dimension are refused.
\<close>

theorem NewSimulation_accepts_witness:
  "NewSimulation 3 [- 100, 100, - 100, 100, - 100, 100] 100000000 =
     Inr \<lparr>dimension = 3, bounds = [- 100, 100, - 100, 100, - 100, 100],
          objects = Map.empty, sensors = Map.empty, targets = Map.empty,
          simulationTime = 0, tickDuration = 100000000, lastEstimates = Map.empty,
          lastErrors = Map.empty\<rparr>
   \<and> NewSimulation 3 [- 100, 100] 100000000 = Inl ConfigurationError
   \<and> NewSimulation (- 1) [] 100000000 = Inl ConfigurationError"
  using NewSimulation_accepts[of 3 "[- 100, 100, - 100, 100, - 100, 100]" 100000000]
    NewSimulation_accepts[of 3 "[- 100, 100]" 100000000]
    NewSimulation_accepts[of "- 1" "[]" 100000000]
  by simp

text \<open>
  Claim C3 as the specification words it fails twice: dimension 0 is accepted,
  and so is a pair of bounds with the minimum 5 above the maximum 3.
\<close>

theorem NewSimulation_counterexample:
  "NewSimulation 0 [] 100000000 =
     Inr \<lparr>dimension = 0, bounds = [], objects = Map.empty, sensors = Map.empty,
          targets = Map.empty, simulationTime = 0, tickDuration = 100000000,
          lastEstimates = Map.empty, lastErrors = Map.empty\<rparr>
   \<and> NewSimulation 1 [5, 3] 100000000 =
     Inr \<lparr>dimension = 1, bounds = [5, 3], objects = Map.empty, sensors = Map.empty,
          targets = Map.empty, simulationTime = 0, tickDuration = 100000000,
          lastEstimates = Map.empty, lastErrors = Map.empty\<rparr>"
  by (simp add: NewSimulation_def wrap64_def)

section \<open>Noise and measurement\<close>

text \<open>
  Claim C7 as the specification words it fails: the noise functions add the
  noise and return the sum as it is. At the true distance 1 the Gaussian model
  with deviation 1 and the draw \<open>- 3\<close> returns \<open>- 2\<close>, the uniform model with
  \<open>maxDelta = 3\<close> and the draw 0 returns \<open>- 2\<close>, and the percentage model with
  \<open>p = 2\<close> and the draw 0 returns \<open>- 1\<close>.
\<close>

theorem noise_counterexample:
  "fst (GaussianNoise 1 1 (\<lambda>n. - 3)) = - 2 \<and> fst (UniformNoise 3 1 (\<lambda>n. 0)) = - 2
   \<and> fst (PercentageNoise 2 1 (\<lambda>n. 0)) = - 1"
  by (simp add: GaussianNoise_def UniformNoise_def PercentageNoise_def rand_NormFloat64_def
        rand_Float64_def)

text \<open>
  Claim C7 as the code has it. The clamp is in \<open>MeasureDistance\<close>: for every
  sensor, whatever its noise function (none, one of the four variants or any
  other), every target and every sequence of draws, the distance the sensor
  returns is \<open>\<ge> 0\<close>.
\<close>

theorem MeasureDistance_nonneg:
  "0 \<le> fst (fst (Sensor_MeasureDistance s target r))"
  by (simp add: Sensor_MeasureDistance_def Let_def split: prod.splits option.splits)

text \<open>
  The Gaussian model and the draw of the counterexample, behind a sensor at
  distance 1 from the target.
\<close>

theorem MeasureDistance_nonneg_witness:
  "0 \<le> fst (fst (Sensor_MeasureDistance
            \<lparr>sensor_id = ''sensor-a'', sensor_position = [0], detectionRadius = 7,
             noiseFunc = Some (GaussianNoise 1)\<rparr>
            (TargetObj \<lparr>target_id = ''target-1'', target_position = [1], velocity = [0]\<rparr>)
            (\<lambda>n. - 3)))"
  using MeasureDistance_nonneg
    [of "\<lparr>sensor_id = ''sensor-a'', sensor_position = [0], detectionRadius = 7,
          noiseFunc = Some (GaussianNoise 1)\<rparr>"
        "TargetObj \<lparr>target_id = ''target-1'', target_position = [1], velocity = [0]\<rparr>"
        "\<lambda>n. - 3"]
  .

section \<open>The motion of a target\<close>

lemma bounce_length:
  "length (fst (bounce js bnds p v)) = length p \<and> length (snd (bounce js bnds p v)) = length v"
  by (induction js arbitrary: p v) (auto simp: Let_def)

lemma bounce_other:
  "i \<notin> set js \<Longrightarrow>
   fst (bounce js bnds p v) ! i = p ! i \<and> snd (bounce js bnds p v) ! i = v ! i"
  by (induction js arbitrary: p v) (auto simp: Let_def)

text \<open>
  The boundary loop treats every axis it visits on its own: the outcome on axis
  \<open>i\<close> depends on the coordinate, the velocity component and the two bounds of
  that axis only.
\<close>

lemma bounce_axis:
  assumes "distinct js" and "i \<in> set js" and "i < length p" and "i < length v"
  shows "fst (bounce js bnds p v) ! i =
           (if p ! i < bnds ! (i * 2) then bnds ! (i * 2) + (bnds ! (i * 2) - p ! i)
            else if bnds ! (i * 2 + 1) < p ! i
            then bnds ! (i * 2 + 1) + (bnds ! (i * 2 + 1) - p ! i)
            else p ! i)
       \<and> snd (bounce js bnds p v) ! i =
           (if p ! i < bnds ! (i * 2) \<or> bnds ! (i * 2 + 1) < p ! i then v ! i * (- 0.8)
            else v ! i)"
  using assms
proof (induction js arbitrary: p v)
  case Nil
  then show ?case by simp
next
  case (Cons j js)
  show ?case
  proof (cases "j = i")
    case True
    then have "i \<notin> set js" using Cons.prems(1) by simp
    then show ?thesis
      using True Cons.prems(3,4) by (simp add: Let_def bounce_other)
  next
    case False
    then have "i \<in> set js" "distinct js" using Cons.prems by auto
    then show ?thesis
      using False Cons.IH[of "p[j := x]" "v[j := y]" for x y] Cons.IH[of p v] Cons.prems(3,4)
      by (simp add: Let_def)
  qed
qed

lemma perturb_velocity_length:
  "length (fst (perturb_velocity js deltaTime v r)) = length v"
  by (induction js arbitrary: v r) (auto simp: Let_def split: prod.splits)

lemma limit_speed_length: "length (limit_speed v) = length v"
  by (simp add: limit_speed_def Let_def Vector_MultiplyByScalar_def)

text \<open>
  Claim C9. Let the bounds have length \<open>2 dim\<close> and the velocity the length of
  the position, let \<open>vel\<close> be the velocity after the random change and the speed
  limit, and \<open>p\<close> the integrated coordinate of axis \<open>i\<close>. Then \<open>Update\<close> returns,
  and on axis \<open>i\<close>: below the minimum, \<open>p\<close> becomes \<open>min + (min - p)\<close>; otherwise
  above the maximum, \<open>p\<close> becomes \<open>max + (max - p)\<close>; in both cases the velocity
  component is multiplied by \<open>- 0.8\<close>; within the bounds the coordinate is \<open>p\<close>
  and the component is unchanged. No other axis enters the result on axis \<open>i\<close>.
\<close>

theorem Target_Update_reflects:
  assumes "length bnds = 2 * length (target_position t)"
      and "length (velocity t) = length (target_position t)"
      and "i < length (target_position t)"
      and "vel = limit_speed (fst (perturb_velocity [0..<length (target_position t)]
                    deltaTime (velocity t) r))"
      and "p = target_position t ! i + vel ! i * deltaTime"
  shows "\<exists>t' r'. Target_Update t deltaTime bnds r = Some (t', r')
           \<and> target_position t' ! i =
               (if p < bnds ! (i * 2) then bnds ! (i * 2) + (bnds ! (i * 2) - p)
                else if bnds ! (i * 2 + 1) < p
                then bnds ! (i * 2 + 1) + (bnds ! (i * 2 + 1) - p)
                else p)
           \<and> velocity t' ! i =
               (if p < bnds ! (i * 2) \<or> bnds ! (i * 2 + 1) < p then vel ! i * (- 0.8)
                else vel ! i)"
proof -
  let ?n = "length (target_position t)"
  obtain v1 r1 where pv: "perturb_velocity [0..<?n] deltaTime (velocity t) r = (v1, r1)"
    by (cases "perturb_velocity [0..<?n] deltaTime (velocity t) r") auto
  have vel: "vel = limit_speed v1" using assms(4) pv by simp
  have lv: "length vel = ?n"
    using perturb_velocity_length[of "[0..<?n]" deltaTime "velocity t" r] pv assms(2)
    by (simp add: vel limit_speed_length)
  let ?newPos = "map2 (\<lambda>a b. a + b) (target_position t)
                   (Vector_MultiplyByScalar vel deltaTime)"
  have add: "Vector_Add (target_position t) (Vector_MultiplyByScalar vel deltaTime)
               = Inr ?newPos"
    using lv by (simp add: Vector_Add_def Vector_Dimension_def Vector_MultiplyByScalar_def)
  have np: "?newPos ! i = p" "i < length ?newPos"
    using lv assms(3,5) by (simp_all add: Vector_MultiplyByScalar_def)
  obtain p' v3 where b: "bounce [0..<?n] bnds ?newPos vel = (p', v3)"
    by (cases "bounce [0..<?n] bnds ?newPos vel") auto
  have ax: "p' ! i =
           (if p < bnds ! (i * 2) then bnds ! (i * 2) + (bnds ! (i * 2) - p)
            else if bnds ! (i * 2 + 1) < p
            then bnds ! (i * 2 + 1) + (bnds ! (i * 2 + 1) - p)
            else p)
       \<and> v3 ! i =
           (if p < bnds ! (i * 2) \<or> bnds ! (i * 2 + 1) < p then vel ! i * (- 0.8)
            else vel ! i)"
    using bounce_axis[of "[0..<?n]" i ?newPos vel bnds] b np lv assms(3) by simp
  have "Target_Update t deltaTime bnds r
          = Some (t\<lparr>target_position := p', velocity := v3\<rparr>, r1)"
    using assms(1,2) pv b add
    by (simp add: Target_Update_def Vector_Dimension_def Let_def vel[symmetric])
  then show ?thesis using ax by simp
qed

text \<open>
  Three targets on the axis \<open>[0, 10]\<close>, each after a fifth of a second in which
  the draw \<open>1 / 2\<close> leaves the velocity as it is: from 9 at velocity 10 the
  integrated coordinate 11 is reflected to 9 and the velocity becomes \<open>- 8\<close>;
  from 1 at velocity \<open>- 10\<close> the coordinate \<open>- 1\<close> is reflected to 1 and the
  velocity becomes 8; from 5 at velocity 10 the coordinate is 7 and the velocity
  stays at 10.
\<close>

theorem Target_Update_reflects_witness:
  "(\<exists>t' r'. Target_Update \<lparr>target_id = ''target-1'', target_position = [9], velocity = [10]\<rparr>
              (1 / 5) [0, 10] (\<lambda>n. 1 / 2) = Some (t', r')
           \<and> target_position t' ! 0 = 9 \<and> velocity t' ! 0 = - 8)
   \<and> (\<exists>t' r'. Target_Update \<lparr>target_id = ''target-1'', target_position = [1], velocity = [- 10]\<rparr>
              (1 / 5) [0, 10] (\<lambda>n. 1 / 2) = Some (t', r')
           \<and> target_position t' ! 0 = 1 \<and> velocity t' ! 0 = 8)
   \<and> (\<exists>t' r'. Target_Update \<lparr>target_id = ''target-1'', target_position = [5], velocity = [10]\<rparr>
              (1 / 5) [0, 10] (\<lambda>n. 1 / 2) = Some (t', r')
           \<and> target_position t' ! 0 = 7 \<and> velocity t' ! 0 = 10)"
  using Target_Update_reflects
    [of "[0, 10]" "\<lparr>target_id = ''target-1'', target_position = [9], velocity = [10]\<rparr>" 0
        "[10]" "1 / 5" "\<lambda>n. 1 / 2" 11]
    Target_Update_reflects
    [of "[0, 10]" "\<lparr>target_id = ''target-1'', target_position = [1], velocity = [- 10]\<rparr>" 0
        "[- 10]" "1 / 5" "\<lambda>n. 1 / 2" "- 1"]
    Target_Update_reflects
    [of "[0, 10]" "\<lparr>target_id = ''target-1'', target_position = [5], velocity = [10]\<rparr>" 0
        "[10]" "1 / 5" "\<lambda>n. 1 / 2" 7]
  by (simp add: rand_Float64_def limit_speed_def maxSpeed_def accelerationScale_def)

section \<open>The engine: what every step maintains\<close>

text \<open>
  An update keeps an object's kind, identifier and dimension, so writing the
  updated object back through its pointer keeps the engine's maps as they
  should be.
\<close>

lemma Target_Update_keeps:
  assumes "Target_Update t deltaTime bnds r = Some (t', r')"
  shows "target_id t' = target_id t \<and> length (target_position t') = length (target_position t)"
proof -
  have len: "\<And>js p v p' v'. bounce js bnds p v = (p', v') \<Longrightarrow> length p' = length p"
    using bounce_length by (metis fst_conv)
  show ?thesis
    using assms
    by (auto simp: Target_Update_def Let_def Vector_Add_def Vector_Dimension_def
          split: if_splits prod.splits sum.splits dest!: len)
qed

lemma Update_keeps:
  assumes "Update obj deltaTime bnds r = Some (obj', r')"
  shows "GetID obj' = GetID obj \<and> length (GetPosition obj') = length (GetPosition obj)
         \<and> (case obj of SensorObj v \<Rightarrow> obj' = obj | TargetObj t \<Rightarrow> (\<exists>t'. obj' = TargetObj t'))"
  using assms
  by (cases obj)
     (auto simp: Sensor_Update_def Target_GetID_def Target_GetPosition_def Vector_Clone_def
        split: option.splits dest: Target_Update_keeps)

lemma write_object_inv:
  assumes "engine_inv s" and "objects s k = Some obj"
      and "GetID obj' = GetID obj" and "length (GetPosition obj') = length (GetPosition obj)"
      and "case obj of SensorObj v \<Rightarrow> obj' = obj | TargetObj t \<Rightarrow> (\<exists>t'. obj' = TargetObj t')"
  shows "engine_inv (write_object k obj' s)"
proof (cases obj)
  case (SensorObj v)
  then have o: "obj' = SensorObj v" using assms(5) by simp
  have "sensors s k = Some v" using assms(1,2) SensorObj by (simp add: engine_inv_def)
  then have "(sensors s)(k \<mapsto> v) = sensors s" "(objects s)(k \<mapsto> SensorObj v) = objects s"
    using assms(2) SensorObj by (auto simp: fun_upd_idem)
  then show ?thesis using assms(1) o by (simp add: write_object_def engine_inv_def)
next
  case (TargetObj t)
  then obtain t' where o: "obj' = TargetObj t'" using assms(5) by auto
  have tk: "targets s k = Some t" using assms(1,2) TargetObj by (simp add: engine_inv_def)
  have sk: "sensors s k = None"
  proof (cases "sensors s k")
    case (Some v)
    then have "objects s k = Some (SensorObj v)" using assms(1) by (simp add: engine_inv_def)
    then show ?thesis using assms(2) TargetObj by simp
  qed simp
  have d: "dom ((targets s)(k \<mapsto> t')) = dom (targets s)" using tk by auto
  have idk: "GetID obj' = k" "int (length (GetPosition obj')) = dimension s"
    using assms(1,2,3,4) by (auto simp: engine_inv_def)
  show ?thesis
    using assms(1,2) TargetObj o sk d idk
    unfolding write_object_def engine_inv_def
    by (auto simp: fun_upd_def)
qed

lemma update_objects_inv:
  assumes "update_objects ks deltaTime s r = Some (s', r')" and "engine_inv s"
  shows "engine_inv s' \<and> dom (targets s') = dom (targets s) \<and> dimension s' = dimension s"
  using assms
proof (induction ks arbitrary: s r)
  case Nil
  then show ?case by simp
next
  case (Cons k ks)
  show ?case
  proof (cases "objects s k")
    case None
    then show ?thesis using Cons by simp
  next
    case (Some obj)
    then obtain obj' r1 where u: "Update obj deltaTime (bounds s) r = Some (obj', r1)"
      and rest: "update_objects ks deltaTime (write_object k obj' s) r1 = Some (s', r')"
      using Cons.prems(1) by (auto split: option.splits)
    note keeps = Update_keeps[OF u]
    have inv1: "engine_inv (write_object k obj' s)"
      using write_object_inv[OF Cons.prems(2) Some] keeps by simp
    have "dom (targets (write_object k obj' s)) = dom (targets s)"
      "dimension (write_object k obj' s) = dimension s"
      using keeps Some Cons.prems(2)
      by (auto simp: write_object_def engine_inv_def split: SimulationObject.splits)
    then show ?thesis using Cons.IH[OF rest inv1] by simp
  qed
qed

text \<open>
  A solution that comes without an error holds a position of the engine's
  dimension, which is at least 1; the distance from the target's position to it
  can then be computed, and is not negative.
\<close>

lemma SolveLeastSquares_success:
  assumes "SolveLeastSquares solver ms D = Some (sol, None)"
  shows "\<exists>x. Position sol = Some x \<and> int (length x) = D \<and> 0 < D"
  using assms
  by (auto simp: SolveLeastSquares_def Let_def
        split: if_splits option.splits sum.splits prod.splits)

lemma CalculateLocalizationError_ok:
  assumes "length t = length e" and "0 < length e"
  shows "\<exists>d. CalculateLocalizationError (Some t) (Some e) = (d, None) \<and> 0 \<le> d"
proof -
  have "0 \<le> sum_list (map2 (\<lambda>a b. (a - b) * (a - b)) t e)"
    by (rule sum_list_nonneg) auto
  then show ?thesis
    using assms
    by (simp add: CalculateLocalizationError_def Vector_Distance_def Vector_Dimension_def)
qed

text \<open>
  The body of the loop over the targets writes the pair of one identifier, the
  target's own, and leaves that pair in step.
\<close>

lemma localize_frame:
  assumes "localize solver sensorOrder s tar r = Some (s', r')"
  shows "objects s' = objects s \<and> sensors s' = sensors s \<and> targets s' = targets s
         \<and> dimension s' = dimension s
         \<and> dom (lastEstimates s') = insert (target_id tar) (dom (lastEstimates s))
         \<and> dom (lastErrors s') = insert (target_id tar) (dom (lastErrors s))
         \<and> (\<forall>k. k \<noteq> target_id tar \<longrightarrow>
               lastEstimates s' k = lastEstimates s k \<and> lastErrors s' k = lastErrors s k)"
  using assms
  by (auto simp: localize_def Let_def Target_GetID_def
        split: if_splits option.splits prod.splits)

lemma localize_in_sync:
  assumes "localize solver sensorOrder s tar r = Some (s', r')"
      and "int (length (target_position tar)) = dimension s"
  shows "in_sync s' (target_id tar)"
proof -
  obtain ms r1 where c: "collect_measurements sensorOrder s tar r = (ms, r1)"
    by (cases "collect_measurements sensorOrder s tar r") auto
  let ?stored = "s\<lparr>lastEstimates := (lastEstimates s)(target_id tar \<mapsto> sentinel),
                     lastErrors := (lastErrors s)(target_id tar \<mapsto> - 1)\<rparr>"
  have sent: "in_sync ?stored (target_id tar)" by (simp add: in_sync_def)
  show ?thesis
  proof (cases "int (length ms) \<ge> wrap64 (dimension s + 1)")
    case False
    then have "s' = ?stored"
      using assms(1) c by (simp add: localize_def Let_def Target_GetID_def)
    then show ?thesis using sent by simp
  next
    case True
    then obtain sol err where sl: "SolveLeastSquares solver ms (dimension s) = Some (sol, err)"
      using assms(1) c by (auto simp: localize_def Let_def split: option.splits)
    show ?thesis
    proof (cases err)
      case (Some e)
      then have "s' = ?stored"
        using assms(1) c True sl by (simp add: localize_def Let_def Target_GetID_def)
      then show ?thesis using sent by simp
    next
      case None
      then obtain x where x: "Position sol = Some x" "int (length x) = dimension s"
          "0 < dimension s"
        using SolveLeastSquares_success sl by blast
      have "length (target_position tar) = length x" "0 < length x"
        using x assms(2) by auto
      then obtain d where d: "CalculateLocalizationError (Some (target_position tar)) (Some x)
                               = (d, None)" "0 \<le> d"
        using CalculateLocalizationError_ok by blast
      have "s' = s\<lparr>lastEstimates := (lastEstimates s)(target_id tar \<mapsto> sol),
                     lastErrors := (lastErrors s)(target_id tar \<mapsto> d)\<rparr>"
        using assms(1) c True sl None x d
        by (simp add: localize_def Let_def Target_GetID_def Target_GetPosition_def
              Vector_Clone_def)
      then show ?thesis using x d by (simp add: in_sync_def)
    qed
  qed
qed

lemma in_sync_cong:
  "lastEstimates s' k = lastEstimates s k \<Longrightarrow> lastErrors s' k = lastErrors s k
     \<Longrightarrow> in_sync s' k = in_sync s k"
  by (simp add: in_sync_def)

lemma localize_targets_frame:
  assumes "localize_targets solver ks sensorOrder s r = Some (s', r')"
  shows "objects s' = objects s \<and> sensors s' = sensors s \<and> targets s' = targets s
         \<and> dimension s' = dimension s"
  using assms
proof (induction ks arbitrary: s r)
  case Nil
  then show ?case by simp
next
  case (Cons k ks)
  show ?case
  proof (cases "targets s k")
    case None
    then show ?thesis using Cons by simp
  next
    case (Some tar)
    then obtain s1 r1 where l: "localize solver (sensorOrder k) s tar r = Some (s1, r1)"
      and rest: "localize_targets solver ks sensorOrder s1 r1 = Some (s', r')"
      using Cons.prems by (auto split: option.splits)
    show ?thesis using Cons.IH[OF rest] localize_frame[OF l] by simp
  qed
qed

lemma localize_targets_in_sync:
  assumes "localize_targets solver ks sensorOrder s r = Some (s', r')"
      and "\<forall>k t. targets s k = Some t \<longrightarrow>
             target_id t = k \<and> int (length (target_position t)) = dimension s"
  shows "(\<forall>k. in_sync s k \<longrightarrow> in_sync s' k)
         \<and> (\<forall>k \<in> set ks. targets s k \<noteq> None \<longrightarrow> in_sync s' k)"
  using assms
proof (induction ks arbitrary: s r)
  case Nil
  then show ?case by simp
next
  case (Cons k ks)
  show ?case
  proof (cases "targets s k")
    case None
    then show ?thesis using Cons by simp
  next
    case (Some tar)
    then obtain s1 r1 where l: "localize solver (sensorOrder k) s tar r = Some (s1, r1)"
      and rest: "localize_targets solver ks sensorOrder s1 r1 = Some (s', r')"
      using Cons.prems by (auto split: option.splits)
    have tk: "target_id tar = k" "int (length (target_position tar)) = dimension s"
      using Cons.prems(2) Some by auto
    note fr = localize_frame[OF l]
    have sync1: "in_sync s1 k" using localize_in_sync[OF l tk(2)] tk(1) by simp
    have keep1: "\<forall>j. in_sync s j \<longrightarrow> in_sync s1 j"
    proof (intro allI impI)
      fix j assume "in_sync s j"
      then show "in_sync s1 j"
        using sync1 fr tk(1) in_sync_cong[of s1 j s] by (cases "j = k") auto
    qed
    have wf1: "\<forall>k t. targets s1 k = Some t \<longrightarrow>
             target_id t = k \<and> int (length (target_position t)) = dimension s1"
      using Cons.prems(2) fr by simp
    note IH = Cons.IH[OF rest wf1]
    show ?thesis using IH keep1 sync1 fr by auto
  qed
qed

text \<open>
  \<open>NewSimulation\<close> establishes the facts of \<open>engine_inv\<close>; \<open>AddObject\<close> and \<open>Step\<close>
  keep them.
\<close>

lemma NewSimulation_inv:
  assumes "- 9223372036854775808 \<le> D" and "D < 9223372036854775808"
      and "NewSimulation D bnds tick = Inr s"
  shows "engine_inv s \<and> targets s = Map.empty"
proof -
  have "0 \<le> D" using assms(3) by (auto simp: NewSimulation_def split: if_splits)
  moreover have "D < 4611686018427387904"
  proof (rule ccontr)
    assume "\<not> D < 4611686018427387904"
    then have "wrap64 (D * 2) < 0" "0 < D" using wrap64_double_neg assms(2) by auto
    then show False using assms(3) by (auto simp: NewSimulation_def split: if_splits)
  qed
  ultimately show ?thesis
    using assms(3) by (auto simp: NewSimulation_def engine_inv_def split: if_splits)
qed

lemma inv_absent:
  assumes "engine_inv s" and "objects s k = None"
  shows "targets s k = None \<and> sensors s k = None"
proof -
  have "\<And>t. targets s k \<noteq> Some t" "\<And>v. sensors s k \<noteq> Some v"
    using assms by (simp_all add: engine_inv_def)
  then show ?thesis by (metis option.exhaust)
qed

lemma AddObject_Inr:
  assumes "AddObject s obj = Inr s'"
  shows "int (length (GetPosition obj)) = dimension s \<and> objects s (GetID obj) = None
         \<and> s' = (case obj of
                 SensorObj v \<Rightarrow> s\<lparr>objects := (objects s)(GetID obj \<mapsto> obj),
                                  sensors := (sensors s)(GetID obj \<mapsto> v)\<rparr>
               | TargetObj v \<Rightarrow>
                   s\<lparr>objects := (objects s)(GetID obj \<mapsto> obj),
                     targets := (targets s)(GetID obj \<mapsto> v),
                     lastEstimates := (lastEstimates s)(GetID obj \<mapsto> sentinel),
                     lastErrors := (lastErrors s)(GetID obj \<mapsto> - 1)\<rparr>)"
  using assms
  by (auto simp: AddObject_def Let_def Vector_Dimension_def
        split: if_splits SimulationObject.splits)

lemma AddObject_inv:
  assumes "AddObject s obj = Inr s'" and "engine_inv s"
  shows "engine_inv s'"
proof -
  let ?k = "GetID obj"
  note a = AddObject_Inr[OF assms(1)]
  have dimok: "int (length (GetPosition obj)) = dimension s" and fresh: "objects s ?k = None"
    using a by simp_all
  have nt: "targets s ?k = None" and ns: "sensors s ?k = None"
    using inv_absent[OF assms(2) fresh] by simp_all
  have o: "\<And>k ob. objects s k = Some ob \<Longrightarrow>
          GetID ob = k \<and> int (length (GetPosition ob)) = dimension s"
    and t: "\<And>k x. (targets s k = Some x) = (objects s k = Some (TargetObj x))"
    and v: "\<And>k x. (sensors s k = Some x) = (objects s k = Some (SensorObj x))"
    and doms: "dom (lastEstimates s) = dom (targets s)" "dom (lastErrors s) = dom (targets s)"
    and dims: "0 \<le> dimension s" "dimension s < 4611686018427387904"
    using assms(2) by (simp_all add: engine_inv_def)
  have obj': "objects s' = (objects s)(?k \<mapsto> obj)" and dim': "dimension s' = dimension s"
    using a by (auto split: SimulationObject.splits)
  have o': "\<forall>k ob. objects s' k = Some ob \<longrightarrow>
          GetID ob = k \<and> int (length (GetPosition ob)) = dimension s'"
    using o dimok by (simp add: obj' dim')
  show ?thesis
  proof (cases obj)
    case (SensorObj x)
    then have s': "targets s' = targets s" "sensors s' = (sensors s)(?k \<mapsto> x)"
      "lastEstimates s' = lastEstimates s" "lastErrors s' = lastErrors s"
      using a by simp_all
    have t': "\<forall>k y. (targets s' k = Some y) = (objects s' k = Some (TargetObj y))"
      using t nt fresh SensorObj by (simp add: s' obj')
    have v': "\<forall>k y. (sensors s' k = Some y) = (objects s' k = Some (SensorObj y))"
      using v fresh SensorObj by (simp add: s' obj')
    show ?thesis
      unfolding engine_inv_def using o' t' v' doms dims by (simp add: s' dim')
  next
    case (TargetObj x)
    then have s': "targets s' = (targets s)(?k \<mapsto> x)" "sensors s' = sensors s"
      "lastEstimates s' = (lastEstimates s)(?k \<mapsto> sentinel)"
      "lastErrors s' = (lastErrors s)(?k \<mapsto> - 1)"
      using a by simp_all
    have t': "\<forall>k y. (targets s' k = Some y) = (objects s' k = Some (TargetObj y))"
      using t fresh TargetObj by (simp add: s' obj')
    have v': "\<forall>k y. (sensors s' k = Some y) = (objects s' k = Some (SensorObj y))"
      using v ns fresh TargetObj by (simp add: s' obj')
    show ?thesis
      unfolding engine_inv_def using o' t' v' doms dims by (simp add: s' dim')
  qed
qed


lemma inv_target:
  assumes "engine_inv s" and "targets s k = Some t"
  shows "target_id t = k \<and> int (length (target_position t)) = dimension s"
proof -
  have "objects s k = Some (TargetObj t)" using assms by (simp add: engine_inv_def)
  then have "GetID (TargetObj t) = k \<and> int (length (GetPosition (TargetObj t))) = dimension s"
    using assms(1) unfolding engine_inv_def by blast
  then show ?thesis by (simp add: Target_GetID_def Target_GetPosition_def Vector_Clone_def)
qed

lemma localize_inv:
  assumes "localize solver sensorOrder s tar r = Some (s', r')"
      and "engine_inv s" and "targets s k = Some tar"
  shows "engine_inv s'"
proof -
  note fr = localize_frame[OF assms(1)]
  have "target_id tar = k" using inv_target[OF assms(2,3)] by simp
  then have "target_id tar \<in> dom (targets s)" using assms(3) by auto
  then have "dom (lastEstimates s') = dom (targets s')" "dom (lastErrors s') = dom (targets s')"
    using fr assms(2) by (auto simp: engine_inv_def)
  then show ?thesis using fr assms(2) by (simp add: engine_inv_def)
qed

lemma localize_targets_inv:
  assumes "localize_targets solver ks sensorOrder s r = Some (s', r')" and "engine_inv s"
  shows "engine_inv s'"
  using assms
proof (induction ks arbitrary: s r)
  case Nil
  then show ?case by simp
next
  case (Cons k ks)
  show ?case
  proof (cases "targets s k")
    case None
    then show ?thesis using Cons by simp
  next
    case (Some tar)
    then obtain s1 r1 where l: "localize solver (sensorOrder k) s tar r = Some (s1, r1)"
      and rest: "localize_targets solver ks sensorOrder s1 r1 = Some (s', r')"
      using Cons.prems by (auto split: option.splits)
    show ?thesis using Cons.IH[OF rest localize_inv[OF l Cons.prems(2) Some]] .
  qed
qed

lemma inv_time: "engine_inv (s\<lparr>simulationTime := x\<rparr>) = engine_inv s"
  by (simp add: engine_inv_def)

lemma Step_phases:
  assumes "Step solver sched s deltaTime r = Some (s', r')"
  obtains s2 r2 where
    "update_objects (objOrder sched) deltaTime
       (s\<lparr>simulationTime := simulationTime s + deltaTime\<rparr>) r = Some (s2, r2)"
    "localize_targets solver (tgtOrder sched) (senOrder sched) s2 r2 = Some (s', r')"
  using assms by (auto simp: Step_def Let_def split: option.splits)

lemma Step_inv:
  assumes "Step solver sched s deltaTime r = Some (s', r')" and "engine_inv s"
  shows "engine_inv s'"
proof -
  obtain s2 r2 where
    u: "update_objects (objOrder sched) deltaTime
       (s\<lparr>simulationTime := simulationTime s + deltaTime\<rparr>) r = Some (s2, r2)" and
    l: "localize_targets solver (tgtOrder sched) (senOrder sched) s2 r2 = Some (s', r')"
    using Step_phases[OF assms(1)] by blast
  have "engine_inv s2" using update_objects_inv[OF u] assms(2) by (simp add: inv_time)
  then show ?thesis using localize_targets_inv[OF l] by simp
qed

lemma engine_engine_inv: "engine n s \<Longrightarrow> engine_inv s"
proof (induction rule: engine.induct)
  case (engine_new dimension' bounds' tickDuration' s)
  then show ?case using NewSimulation_inv by blast
next
  case (engine_add n s obj s')
  then show ?case using AddObject_inv by blast
next
  case (engine_step n s sched solver deltaTime r s' r')
  then show ?case using Step_inv by blast
qed

text \<open>
  Claim C4. After every \<open>Step\<close> of an engine, with orders that enumerate its maps,
  the stored pair of every target is in step: an estimate with a position beside
  an error \<open>\<ge> 0\<close>, or the sentinel beside \<open>- 1\<close>.
\<close>

theorem Step_in_sync:
  assumes "engine n s" and "schedule_of s sched"
      and "Step solver sched s deltaTime r = Some (s', r')"
      and "targets s' k = Some tar"
  shows "in_sync s' k"
proof -
  obtain s2 r2 where
    u: "update_objects (objOrder sched) deltaTime
       (s\<lparr>simulationTime := simulationTime s + deltaTime\<rparr>) r = Some (s2, r2)" and
    l: "localize_targets solver (tgtOrder sched) (senOrder sched) s2 r2 = Some (s', r')"
    using Step_phases[OF assms(3)] by blast
  have inv: "engine_inv s" using engine_engine_inv[OF assms(1)] .
  have u2: "engine_inv s2" "dom (targets s2) = dom (targets s)"
    using update_objects_inv[OF u] inv by (simp_all add: inv_time)
  have wf2: "\<forall>k t. targets s2 k = Some t \<longrightarrow>
             target_id t = k \<and> int (length (target_position t)) = dimension s2"
    using inv_target[OF u2(1)] by blast
  have "targets s' = targets s2" using localize_targets_frame[OF l] by simp
  then have "targets s2 k \<noteq> None" "k \<in> set (tgtOrder sched)"
    using assms(2,4) u2(2) by (auto simp: schedule_of_def)
  then show ?thesis using localize_targets_in_sync[OF l wf2] by blast
qed

text \<open>
  A measurement is collected exactly from the sensors that have the target in
  range: the noise and the draws change the distance measured, not the number
  of measurements.
\<close>

lemma MeasureDistance_in_range:
  "Sensor_MeasureDistance sen (TargetObj tar) r = ((d, inRange, err), r') \<Longrightarrow>
   (err = None \<and> inRange) = in_range sen tar"
  by (auto simp: Sensor_MeasureDistance_def in_range_def Vector_Distance_def
        Vector_Dimension_def Target_GetPosition_def Vector_Clone_def Let_def
        split: if_splits prod.splits option.splits)

lemma collect_count:
  "length (fst (collect_measurements sensorOrder s tar r))
     = length (sensors_in_range s tar sensorOrder)"
proof (induction sensorOrder arbitrary: r)
  case Nil
  then show ?case by (simp add: sensors_in_range_def)
next
  case (Cons k ks)
  show ?case
  proof (cases "sensors s k")
    case None
    then show ?thesis using Cons[of r] by (simp add: sensors_in_range_def)
  next
    case (Some sen)
    obtain d inRange err r1 where
      m: "Sensor_MeasureDistance sen (TargetObj tar) r = ((d, inRange, err), r1)"
      by (metis prod.exhaust)
    note ir = MeasureDistance_in_range[OF m]
    obtain rest r2 where c: "collect_measurements ks s tar r1 = (rest, r2)"
      by (metis prod.exhaust)
    have IH: "length rest = length (sensors_in_range s tar ks)"
      using Cons[of r1] c by simp
    show ?thesis
    proof (cases "in_range sen tar")
      case True
      then have "err = None" "inRange" using ir by auto
      then show ?thesis using Some m c IH True by (simp add: sensors_in_range_def)
    next
      case False
      then have "err \<noteq> None \<or> \<not> inRange" using ir by auto
      then show ?thesis using Some m c IH False by (auto simp: sensors_in_range_def)
    qed
  qed
qed

lemma localize_insufficient:
  assumes "int (length (sensors_in_range s tar sensorOrder)) < dimension s + 1"
      and "0 \<le> dimension s" and "dimension s < 4611686018427387904"
      and "localize solver sensorOrder s tar r = Some (s', r')"
  shows "lastEstimates s' (target_id tar) = Some sentinel
         \<and> lastErrors s' (target_id tar) = Some (- 1)"
proof -
  obtain ms r1 where c: "collect_measurements sensorOrder s tar r = (ms, r1)"
    by (metis prod.exhaust)
  have "length ms = length (sensors_in_range s tar sensorOrder)"
    using collect_count[of sensorOrder s tar r] c by simp
  moreover have "wrap64 (dimension s + 1) = dimension s + 1"
    using assms(2,3) by (intro wrap64_id) linarith+
  ultimately have "\<not> int (length ms) \<ge> wrap64 (dimension s + 1)"
    using assms(1) by simp
  then show ?thesis
    using assms(4) c by (auto simp: localize_def Let_def Target_GetID_def)
qed

lemma sensors_in_range_cong:
  "sensors s' = sensors s \<Longrightarrow> sensors_in_range s' tar ks = sensors_in_range s tar ks"
  by (simp add: sensors_in_range_def)

text \<open>
  The targets are stored under their own identifiers, so the loop leaves alone
  the pair of a target it is not visiting.
\<close>

lemma localize_targets_other:
  assumes "localize_targets solver ks sensorOrder s r = Some (s', r')"
      and "\<forall>j t. targets s j = Some t \<longrightarrow> target_id t = j"
      and "k \<notin> set ks"
  shows "lastEstimates s' k = lastEstimates s k \<and> lastErrors s' k = lastErrors s k"
  using assms
proof (induction ks arbitrary: s r)
  case Nil
  then show ?case by simp
next
  case (Cons j ks)
  show ?case
  proof (cases "targets s j")
    case None
    then show ?thesis using Cons by simp
  next
    case (Some tar)
    then obtain s1 r1 where l: "localize solver (sensorOrder j) s tar r = Some (s1, r1)"
      and rest: "localize_targets solver ks sensorOrder s1 r1 = Some (s', r')"
      using Cons.prems by (auto split: option.splits)
    note fr = localize_frame[OF l]
    have "target_id tar = j" using Cons.prems(2) Some by simp
    then have same: "lastEstimates s1 k = lastEstimates s k \<and> lastErrors s1 k = lastErrors s k"
      using fr Cons.prems(3) by auto
    have "\<forall>j t. targets s1 j = Some t \<longrightarrow> target_id t = j"
      using Cons.prems(2) fr by simp
    then show ?thesis using Cons.IH[OF rest] Cons.prems(3) same by simp
  qed
qed

lemma localize_targets_insufficient:
  assumes "localize_targets solver ks sensorOrder s r = Some (s', r')"
      and "\<forall>j t. targets s j = Some t \<longrightarrow> target_id t = j"
      and "0 \<le> dimension s" and "dimension s < 4611686018427387904"
      and "k \<in> set ks" and "targets s k = Some tar"
      and "int (length (sensors_in_range s tar (sensorOrder k))) < dimension s + 1"
  shows "lastEstimates s' k = Some sentinel \<and> lastErrors s' k = Some (- 1)"
  using assms
proof (induction ks arbitrary: s r)
  case Nil
  then show ?case by simp
next
  case (Cons j ks)
  show ?case
  proof (cases "targets s j")
    case None
    then have "k \<in> set ks" using Cons.prems(5,6) by auto
    then show ?thesis using Cons None by simp
  next
    case (Some tar')
    then obtain s1 r1 where l: "localize solver (sensorOrder j) s tar' r = Some (s1, r1)"
      and rest: "localize_targets solver ks sensorOrder s1 r1 = Some (s', r')"
      using Cons.prems(1) by (auto split: option.splits)
    note fr = localize_frame[OF l]
    have wf1: "\<forall>j t. targets s1 j = Some t \<longrightarrow> target_id t = j"
      using Cons.prems(2) fr by simp
    have d1: "0 \<le> dimension s1" "dimension s1 < 4611686018427387904"
      using Cons.prems(3,4) fr by simp_all
    have t1: "targets s1 k = Some tar" using Cons.prems(6) fr by simp
    have c1: "int (length (sensors_in_range s1 tar (sensorOrder k))) < dimension s1 + 1"
      using Cons.prems(7) fr sensors_in_range_cong[of s1 s] by simp
    show ?thesis
    proof (cases "k \<in> set ks")
      case True
      then show ?thesis using Cons.IH[OF rest wf1 d1 True t1 c1] by simp
    next
      case False
      then have jk: "j = k" using Cons.prems(5) by simp
      then have tt: "tar' = tar" using Some Cons.prems(6) by simp
      have id: "target_id tar = k" using Cons.prems(2,6) by simp
      have "lastEstimates s1 k = Some sentinel \<and> lastErrors s1 k = Some (- 1)"
        using localize_insufficient[OF _ Cons.prems(3,4) l[unfolded tt jk]] Cons.prems(7) id
        by simp
      then show ?thesis using localize_targets_other[OF rest wf1 False] by simp
    qed
  qed
qed

text \<open>
  With fewer sensors in range than \<open>localize_with\<close> requires, the body returns
  with the sentinel stored, whatever function stands in the solver's place.
\<close>

lemma localize_is_localize_with:
  "localize solver sensorOrder s tar r
     = localize_with (SolveLeastSquares solver) sensorOrder s tar r"
  by (simp add: localize_def localize_with_def)

lemma localize_with_insufficient:
  assumes "int (length (sensors_in_range s tar sensorOrder)) < dimension s + 1"
      and "0 \<le> dimension s" and "dimension s < 4611686018427387904"
  shows "\<exists>r'. localize_with solve sensorOrder s tar r =
           Some (s\<lparr>lastEstimates := (lastEstimates s)(target_id tar \<mapsto> sentinel),
                   lastErrors := (lastErrors s)(target_id tar \<mapsto> - 1)\<rparr>, r')"
proof -
  obtain ms r1 where c: "collect_measurements sensorOrder s tar r = (ms, r1)"
    by (metis prod.exhaust)
  have "length ms = length (sensors_in_range s tar sensorOrder)"
    using collect_count[of sensorOrder s tar r] c by simp
  moreover have "wrap64 (dimension s + 1) = dimension s + 1"
    using assms(2,3) by (intro wrap64_id) linarith+
  ultimately have "\<not> int (length ms) \<ge> wrap64 (dimension s + 1)"
    using assms(1) by simp
  then show ?thesis
    using c by (simp add: localize_with_def Let_def Target_GetID_def)
qed

text \<open>
  Claim C5. Let \<open>s\<close> be any engine state with the facts of \<open>engine_inv\<close> (every
  engine a program can build has them), holding any pair for the target \<open>k\<close>, a
  successful estimate included. Let \<open>s2\<close> be the state after the update loop of
  a \<open>Step\<close>, and let fewer than \<open>D + 1\<close> sensors have the target in range at its
  new position. Then after the \<open>Step\<close> the target's estimate is the sentinel and
  its error is \<open>- 1\<close>. The solver is not invoked for this target: the body of the
  loop returns for it with the sentinel stored whatever function stands in the
  place of \<open>SolveLeastSquares\<close>, also one that panics on every call.
\<close>

theorem Step_insufficient:
  assumes "engine_inv s" and "schedule_of s sched"
      and "update_objects (objOrder sched) deltaTime
             (s\<lparr>simulationTime := simulationTime s + deltaTime\<rparr>) r = Some (s2, r2)"
      and "targets s2 k = Some tar"
      and "int (length (sensors_in_range s2 tar (senOrder sched k))) < dimension s + 1"
      and "Step solver sched s deltaTime r = Some (s', r')"
  shows "lastEstimates s' k = Some sentinel \<and> lastErrors s' k = Some (- 1)
         \<and> GetLastEstimate s' k = (sentinel, True)
         \<and> GetLastLocalizationError s' k = (- 1, True)
         \<and> (\<forall>solve sm r0.
               sensors sm = sensors s2 \<and> dimension sm = dimension s2 \<longrightarrow>
               (\<exists>r1. localize_with solve (senOrder sched k) sm tar r0 =
                  Some (sm\<lparr>lastEstimates := (lastEstimates sm)(k \<mapsto> sentinel),
                          lastErrors := (lastErrors sm)(k \<mapsto> - 1)\<rparr>, r1)))"
proof -
  have l: "localize_targets solver (tgtOrder sched) (senOrder sched) s2 r2 = Some (s', r')"
    using assms(3,6) by (simp add: Step_def Let_def)
  have u2: "engine_inv s2" "dom (targets s2) = dom (targets s)" "dimension s2 = dimension s"
    using update_objects_inv[OF assms(3)] assms(1) by (simp_all add: inv_time)
  have wf2: "\<forall>j t. targets s2 j = Some t \<longrightarrow> target_id t = j"
    using inv_target[OF u2(1)] by blast
  have d2: "0 \<le> dimension s2" "dimension s2 < 4611686018427387904"
    using u2(1) by (simp_all add: engine_inv_def)
  have kin: "k \<in> set (tgtOrder sched)"
    using assms(2,4) u2(2) by (auto simp: schedule_of_def)
  have id: "target_id tar = k" using wf2 assms(4) by simp
  have stored: "lastEstimates s' k = Some sentinel \<and> lastErrors s' k = Some (- 1)"
    using localize_targets_insufficient[OF l wf2 d2 kin assms(4)] assms(5) u2(3) by simp
  have body: "\<exists>r1. localize_with solve (senOrder sched k) sm tar r0 =
                  Some (sm\<lparr>lastEstimates := (lastEstimates sm)(k \<mapsto> sentinel),
                          lastErrors := (lastErrors sm)(k \<mapsto> - 1)\<rparr>, r1)"
    if "sensors sm = sensors s2 \<and> dimension sm = dimension s2" for solve sm r0
  proof -
    have "int (length (sensors_in_range sm tar (senOrder sched k))) < dimension sm + 1"
      using that assms(5) u2(3) sensors_in_range_cong[of sm s2] by simp
    then show ?thesis
      using localize_with_insufficient[of sm tar "senOrder sched k" solve r0] that d2 id
      by simp
  qed
  show ?thesis
    using stored body by (simp add: GetLastEstimate_def GetLastLocalizationError_def)
qed

text \<open>Before the first step every target has the pair \<open>AddObject\<close> stored for it.\<close>

lemma engine_fresh:
  "engine n s \<Longrightarrow> n = 0 \<Longrightarrow> targets s k = Some t \<Longrightarrow>
     lastEstimates s k = Some sentinel \<and> lastErrors s k = Some (- 1)"
proof (induction arbitrary: k t rule: engine.induct)
  case (engine_new dimension' bounds' tickDuration' s)
  then show ?case by (auto simp: NewSimulation_def split: if_splits)
next
  case (engine_add n s obj s')
  note a = AddObject_Inr[OF engine_add.hyps(2)]
  show ?case
  proof (cases obj)
    case (SensorObj v)
    then show ?thesis using a engine_add.IH[of k t] engine_add.prems by simp
  next
    case (TargetObj v)
    then show ?thesis
      using a engine_add.IH[of k t] engine_add.prems by (cases "k = GetID obj") auto
  qed
next
  case (engine_step n s sched solver deltaTime r s' r')
  then show ?case by simp
qed

text \<open>
  Claim C10. In every engine the two accessors find nothing for an identifier
  that is not a target's; before the first \<open>Step\<close> they find the sentinel and
  \<open>- 1\<close> for every target; and a successful \<open>AddObject\<close> of a target leaves the
  sentinel and \<open>- 1\<close> under the target's identifier.
\<close>

theorem engine_estimates:
  assumes "engine n s"
  shows "(targets s k = None \<longrightarrow>
            GetLastEstimate s k = (emptySolution, False)
            \<and> GetLastLocalizationError s k = (0, False))
       \<and> (n = 0 \<longrightarrow> targets s k \<noteq> None \<longrightarrow>
            GetLastEstimate s k = (sentinel, True)
            \<and> GetLastLocalizationError s k = (- 1, True))
       \<and> (AddObject s (TargetObj t) = Inr s' \<longrightarrow>
            GetLastEstimate s' (Target_GetID t) = (sentinel, True)
            \<and> GetLastLocalizationError s' (Target_GetID t) = (- 1, True))"
proof -
  have inv: "engine_inv s" using engine_engine_inv[OF assms] .
  have doms: "dom (lastEstimates s) = dom (targets s)" "dom (lastErrors s) = dom (targets s)"
    using inv by (simp_all add: engine_inv_def)
  have 1: "targets s k = None \<Longrightarrow>
            GetLastEstimate s k = (emptySolution, False)
            \<and> GetLastLocalizationError s k = (0, False)"
  proof -
    assume "targets s k = None"
    then have "lastEstimates s k = None" "lastErrors s k = None"
      using doms by (auto simp: domIff[symmetric] simp del: domIff)
    then show ?thesis by (simp add: GetLastEstimate_def GetLastLocalizationError_def)
  qed
  have 2: "n = 0 \<Longrightarrow> targets s k \<noteq> None \<Longrightarrow>
            GetLastEstimate s k = (sentinel, True)
            \<and> GetLastLocalizationError s k = (- 1, True)"
    using engine_fresh[OF assms, of k]
    by (auto simp: GetLastEstimate_def GetLastLocalizationError_def)
  have 3: "AddObject s (TargetObj t) = Inr s' \<Longrightarrow>
            GetLastEstimate s' (Target_GetID t) = (sentinel, True)
            \<and> GetLastLocalizationError s' (Target_GetID t) = (- 1, True)"
    using AddObject_Inr[of s "TargetObj t" s']
    by (auto simp: GetLastEstimate_def GetLastLocalizationError_def)
  show ?thesis using 1 2 3 by blast
qed

section \<open>The engine: a step returns\<close>

text \<open>
  In an engine of dimension at least 1, with a solver whose candidates fit the
  matrix and targets built by \<open>NewTarget\<close>, no index is out of range and the
  matrix library is never given an empty matrix: \<open>Step\<close> returns.
\<close>

lemma Target_Update_returns:
  assumes "length (velocity t) = length (target_position t)"
  shows "\<exists>t' r'. Target_Update t deltaTime bnds r = Some (t', r')
           \<and> length (velocity t') = length (target_position t')"
proof -
  let ?n = "length (target_position t)"
  obtain v1 r1 where pv: "perturb_velocity [0..<?n] deltaTime (velocity t) r = (v1, r1)"
    by (cases "perturb_velocity [0..<?n] deltaTime (velocity t) r") auto
  have l1: "length (limit_speed v1) = ?n"
    using perturb_velocity_length[of "[0..<?n]" deltaTime "velocity t" r] pv assms
    by (simp add: limit_speed_length)
  let ?newPos = "map2 (\<lambda>a b. a + b) (target_position t)
                   (Vector_MultiplyByScalar (limit_speed v1) deltaTime)"
  obtain p' v3 where b: "bounce [0..<?n] bnds ?newPos (limit_speed v1) = (p', v3)"
    by (cases "bounce [0..<?n] bnds ?newPos (limit_speed v1)") auto
  have "length p' = ?n" "length v3 = ?n"
    using bounce_length[of "[0..<?n]" bnds ?newPos "limit_speed v1"] b l1
    by (simp_all add: Vector_MultiplyByScalar_def)
  then show ?thesis
    using assms pv b l1
    by (simp add: Target_Update_def Vector_Dimension_def Let_def Vector_Add_def
          Vector_MultiplyByScalar_def)
qed

lemma update_objects_returns:
  assumes "velocities_ok s" and "engine_inv s"
  shows "\<exists>s' r'. update_objects ks deltaTime s r = Some (s', r') \<and> velocities_ok s'"
  using assms
proof (induction ks arbitrary: s r)
  case Nil
  then show ?case by simp
next
  case (Cons k ks)
  show ?case
  proof (cases "objects s k")
    case None
    then show ?thesis using Cons by simp
  next
    case (Some obj)
    show ?thesis
    proof (cases obj)
      case (SensorObj v)
      have "write_object k (SensorObj v) s = s"
        using Some SensorObj Cons.prems(2)
        by (simp add: write_object_def engine_inv_def map_upd_triv)
      then show ?thesis
        using Some SensorObj Cons.IH[OF Cons.prems] by (simp add: Sensor_Update_def)
    next
      case (TargetObj t)
      then have "length (velocity t) = length (target_position t)"
        using Cons.prems(1) Some by (simp add: velocities_ok_def)
      then obtain t' r1 where u: "Target_Update t deltaTime (bounds s) r = Some (t', r1)"
        and lt: "length (velocity t') = length (target_position t')"
        using Target_Update_returns by blast
      have U: "Update obj deltaTime (bounds s) r = Some (TargetObj t', r1)"
        using u TargetObj by simp
      have inv1: "engine_inv (write_object k (TargetObj t') s)"
        using write_object_inv[OF Cons.prems(2) Some] Update_keeps[OF U] by simp
      have v1: "velocities_ok (write_object k (TargetObj t') s)"
        using Cons.prems(1) lt by (auto simp: velocities_ok_def write_object_def)
      show ?thesis using Some U Cons.IH[OF v1 inv1] by simp
    qed
  qed
qed

lemma MeasureDistance_clamped:
  "Sensor_MeasureDistance sen target r = ((d, inRange, err), r') \<Longrightarrow> 0 \<le> d"
  by (auto simp: Sensor_MeasureDistance_def Let_def split: prod.splits option.splits if_splits)

lemma collect_measurements_wf:
  assumes "engine_inv s"
  shows "\<forall>m \<in> set (fst (collect_measurements ks s tar r)).
           length (SensorPosition m) = nat (dimension s) \<and> 0 \<le> Distance m"
proof (induction ks arbitrary: r)
  case Nil
  then show ?case by simp
next
  case (Cons k ks)
  show ?case
  proof (cases "sensors s k")
    case None
    then show ?thesis using Cons by simp
  next
    case (Some sen)
    then have "objects s k = Some (SensorObj sen)" using assms by (simp add: engine_inv_def)
    then have "int (length (GetPosition (SensorObj sen))) = dimension s"
      using assms unfolding engine_inv_def by blast
    then have len: "length (Sensor_GetPosition sen) = nat (dimension s)" by simp
    obtain d inRange err r1 where
      m: "Sensor_MeasureDistance sen (TargetObj tar) r = ((d, inRange, err), r1)"
      by (metis prod.exhaust)
    have d: "0 \<le> d" using MeasureDistance_clamped[OF m] .
    obtain rest r2 where c: "collect_measurements ks s tar r1 = (rest, r2)"
      by (metis prod.exhaust)
    have "\<forall>m \<in> set rest. length (SensorPosition m) = nat (dimension s) \<and> 0 \<le> Distance m"
      using Cons[of r1] c by simp
    then show ?thesis using Some m c len d by auto
  qed
qed

lemma SolveLeastSquares_returns:
  assumes "1 \<le> D" and "D < 9223372036854775807"
      and "D + 1 \<le> int (length ms)"
      and "\<forall>m \<in> set ms. length (SensorPosition m) = nat D \<and> 0 \<le> Distance m"
      and "solver_ok solver"
  shows "\<exists>sol err. SolveLeastSquares solver ms D = Some (sol, err)"
proof -
  obtain A b where ls: "linear_system ms (nat D) = (A, b)"
    by (metis prod.exhaust)
  note f = SolveLeastSquares_follows_solver[OF assms(1-4) ls, of solver]
  show ?thesis
  proof (cases "solver A b")
    case None
    then show ?thesis using f by simp
  next
    case (Some x)
    have "butlast ms \<noteq> []" using assms(1,3) by (cases ms rule: rev_cases) auto
    then obtain m0 where m0: "m0 \<in> set (butlast ms)" by (cases "butlast ms") auto
    have "matrix_row (SensorPosition (last ms)) (SensorPosition m0) (nat D) \<in> set A"
      using ls m0 by (auto simp: linear_system_def Let_def)
    then have "length (matrix_row (SensorPosition (last ms)) (SensorPosition m0) (nat D))
                 = length x"
      using assms(5) Some unfolding solver_ok_def by blast
    then have "int (length x) = D" using assms(1) by (simp add: matrix_row_def)
    then show ?thesis using f Some by simp
  qed
qed

lemma localize_returns:
  assumes "engine_inv s" and "1 \<le> dimension s" and "solver_ok solver"
  shows "\<exists>s' r'. localize solver sensorOrder s tar r = Some (s', r')"
proof -
  obtain ms r1 where c: "collect_measurements sensorOrder s tar r = (ms, r1)"
    by (metis prod.exhaust)
  have wf: "\<forall>m \<in> set ms. length (SensorPosition m) = nat (dimension s) \<and> 0 \<le> Distance m"
    using collect_measurements_wf[OF assms(1), of sensorOrder tar r] c by simp
  have small: "dimension s < 4611686018427387904" using assms(1) by (simp add: engine_inv_def)
  have w: "wrap64 (dimension s + 1) = dimension s + 1"
    using assms(2) small by (intro wrap64_id) linarith+
  show ?thesis
  proof (cases "int (length ms) \<ge> dimension s + 1")
    case False
    then show ?thesis using c w by (simp add: localize_def Let_def)
  next
    case True
    then obtain sol err where "SolveLeastSquares solver ms (dimension s) = Some (sol, err)"
      using SolveLeastSquares_returns[OF assms(2) _ _ wf assms(3)] small by force
    then show ?thesis
      using c w True by (auto simp: localize_def Let_def split: prod.splits)
  qed
qed

lemma localize_targets_returns:
  assumes "engine_inv s" and "1 \<le> dimension s" and "solver_ok solver"
  shows "\<exists>s' r'. localize_targets solver ks sensorOrder s r = Some (s', r')"
  using assms
proof (induction ks arbitrary: s r)
  case Nil
  then show ?case by simp
next
  case (Cons k ks)
  show ?case
  proof (cases "targets s k")
    case None
    then show ?thesis using Cons by simp
  next
    case (Some tar)
    obtain s1 r1 where l: "localize solver (sensorOrder k) s tar r = Some (s1, r1)"
      using localize_returns[OF Cons.prems] by blast
    have "engine_inv s1" "1 \<le> dimension s1"
      using localize_inv[OF l Cons.prems(1) Some] localize_frame[OF l] Cons.prems(2) by simp_all
    then show ?thesis using Cons.IH[OF _ _ Cons.prems(3), of s1 r1] Some l by simp
  qed
qed

lemma Step_returns:
  assumes "engine n s" and "1 \<le> dimension s" and "solver_ok solver" and "velocities_ok s"
  shows "\<exists>s' r'. Step solver sched s deltaTime r = Some (s', r')"
proof -
  let ?s1 = "s\<lparr>simulationTime := simulationTime s + deltaTime\<rparr>"
  have inv: "engine_inv ?s1" using engine_engine_inv[OF assms(1)] by (simp add: inv_time)
  have "velocities_ok ?s1" using assms(4) by (simp add: velocities_ok_def)
  then obtain s2 r2 where
    u: "update_objects (objOrder sched) deltaTime ?s1 r = Some (s2, r2)"
    using update_objects_returns[OF _ inv] by blast
  have "engine_inv s2" "1 \<le> dimension s2"
    using update_objects_inv[OF u inv] assms(2) by simp_all
  then obtain s' r' where
    "localize_targets solver (tgtOrder sched) (senOrder sched) s2 r2 = Some (s', r')"
    using localize_targets_returns[OF _ _ assms(3)] by blast
  then show ?thesis using u by (simp add: Step_def Let_def)
qed

text \<open>
  In dimension 0, which \<open>NewSimulation\<close> accepts, the solver never returns on a
  measurement: the matrix library panics on a matrix without columns. An engine
  of dimension 0 therefore never stores an estimate, and its \<open>Step\<close> panics as soon
  as a sensor measures a target.
\<close>

lemma SolveLeastSquares_dimension_zero:
  assumes "ms \<noteq> []" and "\<forall>m \<in> set ms. SensorPosition m = []"
  shows "SolveLeastSquares solver ms 0 = None"
proof -
  have w: "wrap64 1 = 1" by (simp add: wrap64_def)
  have len: "1 \<le> length ms" using assms(1) by (cases ms) auto
  have "last ms \<in> set ms" using assms(1) by simp
  then have ref: "SensorPosition (last ms) = []" using assms(2) by blast
  have "\<forall>m \<in> set (butlast ms). length (SensorPosition m) = length (SensorPosition (last ms))"
    using assms(2) ref by (auto dest: in_set_butlastD)
  then have "\<exists>A b. equations (SensorPosition (last ms)) rd rn 0 (butlast ms)
                  = Some (Inr (A, b))" for rd rn
    using equations_Inr[of "butlast ms" "SensorPosition (last ms)" 0 rd rn] ref by simp
  then obtain A b where
    "equations (SensorPosition (last ms))
       ((if Distance (last ms) < 0 then 0 else Distance (last ms))
          * (if Distance (last ms) < 0 then 0 else Distance (last ms)))
       (Vector_NormSq (SensorPosition (last ms))) 0 (butlast ms) = Some (Inr (A, b))"
    by blast
  then show ?thesis
    using assms(1) len by (simp add: SolveLeastSquares_def w Let_def)
qed


section \<open>The engine in one dimension, step by step\<close>

lemma demo_fields:
  "sensor_position demo_sensor_a = [0]" "sensor_position demo_sensor_b = [10]"
  "sensor_id demo_sensor_a = ''sensor-a''" "sensor_id demo_sensor_b = ''sensor-b''"
  "target_position demo_target = [4]" "target_id demo_target = ''target-1''"
  "target_position demo_target_moved = [9]" "target_id demo_target_moved = ''target-1''"
  by (simp_all add: demo_sensor_a_def demo_sensor_b_def demo_target_def demo_target_moved_def)

lemma demo_engine3_maps:
  "objects demo_engine3 = [''sensor-a'' \<mapsto> SensorObj demo_sensor_a,
                           ''sensor-b'' \<mapsto> SensorObj demo_sensor_b,
                           ''target-1'' \<mapsto> TargetObj demo_target]"
  "sensors demo_engine3 = [''sensor-a'' \<mapsto> demo_sensor_a, ''sensor-b'' \<mapsto> demo_sensor_b]"
  "targets demo_engine3 = [''target-1'' \<mapsto> demo_target]"
  "lastEstimates demo_engine3 = [''target-1'' \<mapsto> sentinel]"
  "lastErrors demo_engine3 = [''target-1'' \<mapsto> - 1]"
  "dimension demo_engine3 = 1" "bounds demo_engine3 = [0, 10]"
  "simulationTime demo_engine3 = 0"
  by (simp_all add: demo_engine3_def demo_engine2_def demo_engine0_def)

lemma demo_engine4_maps:
  "objects demo_engine4 = objects demo_engine3"
  "sensors demo_engine4 = sensors demo_engine3"
  "targets demo_engine4 = targets demo_engine3"
  "lastEstimates demo_engine4 = [''target-1'' \<mapsto> \<lparr>Position = Some [4], ResidualError = 0\<rparr>]"
  "lastErrors demo_engine4 = [''target-1'' \<mapsto> 0]"
  "dimension demo_engine4 = 1" "bounds demo_engine4 = [0, 10]"
  "simulationTime demo_engine4 = 1 / 10"
  by (simp_all add: demo_engine4_def demo_engine3_maps)

lemma demo_engine5_maps:
  "objects demo_engine5 = [''sensor-a'' \<mapsto> SensorObj demo_sensor_a,
                           ''sensor-b'' \<mapsto> SensorObj demo_sensor_b,
                           ''target-1'' \<mapsto> TargetObj demo_target_moved]"
  "sensors demo_engine5 = [''sensor-a'' \<mapsto> demo_sensor_a, ''sensor-b'' \<mapsto> demo_sensor_b]"
  "targets demo_engine5 = [''target-1'' \<mapsto> demo_target_moved]"
  "lastEstimates demo_engine5 = [''target-1'' \<mapsto> \<lparr>Position = Some [4], ResidualError = 0\<rparr>]"
  "lastErrors demo_engine5 = [''target-1'' \<mapsto> 0]"
  "dimension demo_engine5 = 1" "bounds demo_engine5 = [0, 10]"
  by (simp_all add: demo_engine5_def demo_engine4_maps demo_engine3_maps)

text \<open>The engine is built by \<open>NewSimulation\<close> and three calls of \<open>AddObject\<close>.\<close>

lemma demo_new: "NewSimulation 1 [0, 10] 100000000 = Inr demo_engine0"
  by (simp add: NewSimulation_def wrap64_def demo_engine0_def)

lemma demo_add:
  "AddObject demo_engine0 (SensorObj demo_sensor_a) = Inr demo_engine1"
  "AddObject demo_engine1 (SensorObj demo_sensor_b) = Inr demo_engine2"
  "AddObject demo_engine2 (TargetObj demo_target) = Inr demo_engine3"
  by (simp_all add: AddObject_def Let_def demo_engine0_def demo_engine1_def demo_engine2_def
        demo_engine3_def demo_fields Sensor_GetPosition_def Sensor_GetID_def
        Target_GetPosition_def Target_GetID_def Vector_Clone_def Vector_Dimension_def)

lemma demo_engine2_engine: "engine 0 demo_engine2"
  by (rule engine_add[OF engine_add[OF engine_new[OF _ _ demo_new] demo_add(1)] demo_add(2)])
    simp_all

lemma demo_engine3_engine: "engine 0 demo_engine3"
  by (rule engine_add[OF demo_engine2_engine demo_add(3)])

lemma demo_schedule_of:
  "schedule_of demo_engine3 demo_schedule" "schedule_of demo_engine4 demo_schedule"
  by (auto simp: schedule_of_def demo_schedule_def demo_engine4_maps demo_engine3_maps)

text \<open>The first step: the draw \<open>1 / 2\<close> leaves the target where it is.\<close>

lemma demo_update:
  "Target_Update demo_target (1 / 10) [0, 10] (\<lambda>n. 1 / 2) = Some (demo_target, \<lambda>n. 1 / 2)"
  by (simp add: Target_Update_def demo_target_def Vector_Dimension_def rand_Float64_def
        limit_speed_def maxSpeed_def accelerationScale_def Vector_MultiplyByScalar_def
        Vector_Add_def Let_def)

lemma demo_update_objects:
  "update_objects [''sensor-a'', ''target-1'', ''sensor-b''] (1 / 10)
     (demo_engine3\<lparr>simulationTime := 1 / 10\<rparr>) (\<lambda>n. 1 / 2)
   = Some (demo_engine3\<lparr>simulationTime := 1 / 10\<rparr>, \<lambda>n. 1 / 2)"
proof -
  let ?s = "demo_engine3\<lparr>simulationTime := 1 / 10\<rparr>"
  have w: "write_object ''sensor-a'' (SensorObj demo_sensor_a) ?s = ?s"
    "write_object ''target-1'' (TargetObj demo_target) ?s = ?s"
    "write_object ''sensor-b'' (SensorObj demo_sensor_b) ?s = ?s"
    by (simp_all add: write_object_def demo_engine3_maps map_upd_triv)
  show ?thesis
    by (simp add: demo_engine3_maps Sensor_Update_def demo_update w)
qed

lemma sqrt_16: "sqrt 16 = 4"
  using real_sqrt_abs[of 4] by simp

lemma sqrt_36: "sqrt 36 = 6"
  using real_sqrt_abs[of 6] by simp

lemma sqrt_81: "sqrt 81 = 9"
  using real_sqrt_abs[of 9] by simp

lemma demo_measure:
  "Sensor_MeasureDistance demo_sensor_a (TargetObj demo_target) r = ((4, True, None), r)"
  "Sensor_MeasureDistance demo_sensor_b (TargetObj demo_target) r = ((6, True, None), r)"
  by (simp_all add: Sensor_MeasureDistance_def demo_sensor_a_def demo_sensor_b_def
        demo_target_def Target_GetPosition_def Vector_Clone_def Vector_Distance_def
        Vector_Dimension_def sqrt_16 sqrt_36)

lemma demo_collect:
  "collect_measurements [''sensor-a'', ''sensor-b''] (demo_engine3\<lparr>simulationTime := 1 / 10\<rparr>)
     demo_target r
   = ([\<lparr>SensorPosition = [0], Distance = 4\<rparr>, \<lparr>SensorPosition = [10], Distance = 6\<rparr>], r)"
  by (simp add: demo_engine3_maps demo_measure Sensor_GetPosition_def Vector_Clone_def
        demo_fields)

lemma demo_solve:
  "SolveLeastSquares demo_solver
     [\<lparr>SensorPosition = [0], Distance = 4\<rparr>, \<lparr>SensorPosition = [10], Distance = 6\<rparr>] 1
   = Some (\<lparr>Position = Some [4], ResidualError = 0\<rparr>, None)"
  by (simp add: SolveLeastSquares_def wrap64_def Let_def Vector_NormSq_def Vector_Subtract_def
        Vector_Dimension_def Vector_MultiplyByScalar_def demo_solver_def MulVec_def SubVec_def
        Nrm2_def)

lemma demo_localize:
  "localize demo_solver [''sensor-a'', ''sensor-b''] (demo_engine3\<lparr>simulationTime := 1 / 10\<rparr>)
     demo_target r
   = Some (demo_engine4, r)"
  by (simp add: localize_def demo_collect demo_engine3_maps wrap64_def demo_solve
        Target_GetID_def Target_GetPosition_def Vector_Clone_def demo_fields
        CalculateLocalizationError_def Vector_Distance_def Vector_Dimension_def Let_def
        demo_engine4_def
      del: collect_measurements.simps)

lemma demo_step:
  "Step demo_solver demo_schedule demo_engine3 (1 / 10) (\<lambda>n. 1 / 2)
     = Some (demo_engine4, \<lambda>n. 1 / 2)"
  by (simp add: Step_def demo_schedule_def demo_update_objects demo_engine3_maps demo_localize
      del: update_objects.simps)

lemma demo_engine4_engine: "engine (Suc 0) demo_engine4"
  by (rule engine_step[OF demo_engine3_engine demo_schedule_of(1) demo_step])

text \<open>
  The second step: the draw 1 takes the target to 9, at distance 9 from the first
  sensor, whose radius is 7.
\<close>

lemma demo_update_moved:
  "Target_Update demo_target 1 [0, 10] (\<lambda>n. 1) = Some (demo_target_moved, \<lambda>n. 1)"
  by (simp add: Target_Update_def demo_target_def demo_target_moved_def Vector_Dimension_def
        rand_Float64_def limit_speed_def maxSpeed_def accelerationScale_def
        Vector_MultiplyByScalar_def Vector_Add_def Let_def)

lemma demo_update_objects_moved:
  "update_objects (objOrder demo_schedule) 1
     (demo_engine4\<lparr>simulationTime := simulationTime demo_engine4 + 1\<rparr>) (\<lambda>n. 1)
   = Some (demo_engine5, \<lambda>n. 1)"
proof -
  let ?s = "demo_engine4\<lparr>simulationTime := 11 / 10\<rparr>"
  have w: "write_object ''sensor-a'' (SensorObj demo_sensor_a) ?s = ?s"
    by (simp add: write_object_def demo_engine4_maps demo_engine3_maps map_upd_triv)
  have w2: "write_object ''target-1'' (TargetObj demo_target_moved) ?s = demo_engine5"
    by (simp add: write_object_def demo_engine4_maps demo_engine3_maps demo_engine5_def)
  have w3: "write_object ''sensor-b'' (SensorObj demo_sensor_b) demo_engine5 = demo_engine5"
    by (simp add: write_object_def demo_engine5_maps map_upd_triv)
  show ?thesis
    by (simp add: demo_schedule_def demo_engine4_maps demo_engine3_maps demo_engine5_maps
          Sensor_Update_def demo_update_moved w w2 w3)
qed

lemma demo_in_range:
  "\<not> in_range demo_sensor_a demo_target_moved" "in_range demo_sensor_b demo_target_moved"
  by (simp_all add: in_range_def demo_sensor_a_def demo_sensor_b_def demo_target_moved_def
        Vector_Distance_def Vector_Dimension_def sqrt_81)

lemma demo_measure_moved:
  "Sensor_MeasureDistance demo_sensor_a (TargetObj demo_target_moved) r = ((0, False, None), r)"
  "Sensor_MeasureDistance demo_sensor_b (TargetObj demo_target_moved) r = ((1, True, None), r)"
  by (simp_all add: Sensor_MeasureDistance_def demo_sensor_a_def demo_sensor_b_def
        demo_target_moved_def Target_GetPosition_def Vector_Clone_def Vector_Distance_def
        Vector_Dimension_def sqrt_81)

lemma demo_step_moved:
  "Step solver demo_schedule demo_engine4 1 (\<lambda>n. 1) = Some (demo_engine6, \<lambda>n. 1)"
proof -
  have l: "localize solver [''sensor-a'', ''sensor-b''] demo_engine5 demo_target_moved (\<lambda>n. 1)
     = Some (demo_engine6, \<lambda>n. 1)"
    by (simp add: localize_def demo_engine5_maps demo_measure_moved wrap64_def Let_def
          Target_GetID_def demo_fields Sensor_GetPosition_def demo_engine6_def)
  show ?thesis
    using demo_update_objects_moved
    by (simp add: Step_def demo_schedule_def demo_engine5_maps l del: update_objects.simps)
qed

text \<open>After the first step the estimate of the target is the point 4, with error 0.\<close>

theorem Step_in_sync_witness: "in_sync demo_engine4 ''target-1''"
  using Step_in_sync[OF demo_engine3_engine demo_schedule_of(1) demo_step,
          of "''target-1''" demo_target]
  by (simp add: demo_engine4_maps demo_engine3_maps)

text \<open>
  The second step finds one sensor in range where two are needed, and the
  estimate of the first step gives way to the sentinel; the body of the loop
  does so with a function in the solver's place that panics on every call.
\<close>

theorem Step_insufficient_witness:
  "lastEstimates demo_engine4 ''target-1'' = Some \<lparr>Position = Some [4], ResidualError = 0\<rparr>
   \<and> lastErrors demo_engine4 ''target-1'' = Some 0
   \<and> lastEstimates demo_engine6 ''target-1'' = Some sentinel
   \<and> lastErrors demo_engine6 ''target-1'' = Some (- 1)
   \<and> GetLastEstimate demo_engine6 ''target-1'' = (sentinel, True)
   \<and> GetLastLocalizationError demo_engine6 ''target-1'' = (- 1, True)
   \<and> (\<exists>r1. localize_with (\<lambda>ms D. None) [''sensor-a'', ''sensor-b''] demo_engine5
               demo_target_moved (\<lambda>n. 1) = Some (demo_engine6, r1))"
proof -
  have t: "targets demo_engine5 ''target-1'' = Some demo_target_moved"
    by (simp add: demo_engine5_maps)
  have c: "int (length (sensors_in_range demo_engine5 demo_target_moved
                          (senOrder demo_schedule ''target-1''))) < dimension demo_engine4 + 1"
    by (simp add: demo_engine4_maps demo_engine5_maps sensors_in_range_def demo_schedule_def
          demo_in_range)
  note th = Step_insufficient[OF engine_engine_inv[OF demo_engine4_engine] demo_schedule_of(2)
              demo_update_objects_moved t c demo_step_moved[of demo_solver]]
  from th have "\<forall>solve sm r0.
      sensors sm = sensors demo_engine5 \<and> dimension sm = dimension demo_engine5 \<longrightarrow>
      (\<exists>r1. localize_with solve (senOrder demo_schedule ''target-1'') sm demo_target_moved r0 =
         Some (sm\<lparr>lastEstimates := (lastEstimates sm)(''target-1'' \<mapsto> sentinel),
                 lastErrors := (lastErrors sm)(''target-1'' \<mapsto> - 1)\<rparr>, r1))"
    by (elim conjE)
  then have "\<exists>r1. localize_with (\<lambda>ms D. None) (senOrder demo_schedule ''target-1'')
                 demo_engine5 demo_target_moved (\<lambda>n. 1) =
         Some (demo_engine5\<lparr>lastEstimates := (lastEstimates demo_engine5)(''target-1'' \<mapsto> sentinel),
                 lastErrors := (lastErrors demo_engine5)(''target-1'' \<mapsto> - 1)\<rparr>, r1)"
    by (elim allE[of _ "\<lambda>ms D. None"] allE[of _ demo_engine5] allE[of _ "\<lambda>n. 1"]) simp
  then have body: "\<exists>r1. localize_with (\<lambda>ms D. None) [''sensor-a'', ''sensor-b'']
                 demo_engine5 demo_target_moved (\<lambda>n. 1) = Some (demo_engine6, r1)"
    by (simp add: demo_engine5_maps demo_engine6_def demo_schedule_def)
  from th have stored:
      "lastEstimates demo_engine6 ''target-1'' = Some sentinel
       \<and> lastErrors demo_engine6 ''target-1'' = Some (- 1)
       \<and> GetLastEstimate demo_engine6 ''target-1'' = (sentinel, True)
       \<and> GetLastLocalizationError demo_engine6 ''target-1'' = (- 1, True)"
    by (elim conjE) (intro conjI)
  have prior: "lastEstimates demo_engine4 ''target-1''
                 = Some \<lparr>Position = Some [4], ResidualError = 0\<rparr>
               \<and> lastErrors demo_engine4 ''target-1'' = Some 0"
    by (simp add: demo_engine4_maps)
  from prior stored body show ?thesis by (elim conjE) (intro conjI)
qed

text \<open>
  Adding the target to the engine with the two sensors stores the sentinel for
  it; before any step the accessors return the sentinel for the target, and
  nothing for a sensor's identifier or an unknown one.
\<close>

theorem engine_estimates_witness:
  "AddObject demo_engine2 (TargetObj demo_target) = Inr demo_engine3
   \<and> GetLastEstimate demo_engine3 (Target_GetID demo_target) = (sentinel, True)
   \<and> GetLastLocalizationError demo_engine3 (Target_GetID demo_target) = (- 1, True)
   \<and> GetLastEstimate demo_engine3 ''target-1'' = (sentinel, True)
   \<and> GetLastLocalizationError demo_engine3 ''target-1'' = (- 1, True)
   \<and> GetLastEstimate demo_engine3 ''sensor-a'' = (emptySolution, False)
   \<and> GetLastLocalizationError demo_engine3 ''sensor-a'' = (0, False)
   \<and> GetLastEstimate demo_engine3 ''target-2'' = (emptySolution, False)
   \<and> GetLastLocalizationError demo_engine3 ''target-2'' = (0, False)"
  using engine_estimates[OF demo_engine2_engine, of "''target-1''" demo_target demo_engine3]
    engine_estimates[OF demo_engine3_engine, of "''target-1''" demo_target demo_engine3]
    engine_estimates[OF demo_engine3_engine, of "''sensor-a''" demo_target demo_engine3]
    engine_estimates[OF demo_engine3_engine, of "''target-2''" demo_target demo_engine3]
    demo_add(3)
  by (simp add: demo_engine3_maps)

section \<open>Accessors and the arrays behind the vectors\<close>

text \<open>
  \<open>GetPosition\<close> clones: a write through the vector it returned changes neither
  the target's position nor what a second call returns.
\<close>

lemma GetPosition_independent:
  assumes "position_ref t = Some a" and "a < length h"
      and "Target_GetPosition_ref h t = (v, h1)"
      and "heap_write h1 v i x = Some h2"
      and "Target_GetPosition_ref h2 t = (v', h3)"
  shows "heap_read h2 (position_ref t) = heap_read h (position_ref t)
         \<and> heap_read h3 v' = heap_read h (position_ref t)"
  using assms
  by (auto simp: Target_GetPosition_ref_def Clone_ref_def heap_alloc_def heap_read_def
        heap_write_def Let_def nth_append split: if_splits option.splits)

text \<open>
  \<open>GetLastEstimate\<close> does not: a write through the position of the solution it
  returned is a write to the stored estimate.
\<close>

lemma GetLastEstimate_shared:
  assumes "GetLastEstimate_ref m k = (sol, True)"
      and "heap_write h (Position_ref sol) i x = Some h2"
  shows "\<exists>xs. heap_read h (Position_ref (fst (GetLastEstimate_ref m k))) = Some xs
           \<and> heap_read h2 (Position_ref (fst (GetLastEstimate_ref m k))) = Some (xs[i := x])"
  using assms
  by (auto simp: GetLastEstimate_ref_def heap_read_def heap_write_def
        split: if_splits option.splits)

text \<open>
  Claim C8 fails for \<open>GetLastEstimate\<close>. An engine stores the estimate \<open>(3, 4)\<close>
  for its target, whose position is the array at address 0. The caller reads
  the estimate, sets the first coordinate of the position it was given to 99,
  and reads the estimate again: the second answer is \<open>(99, 4)\<close>. The same
  experiment on the position \<open>GetPosition\<close> returns leaves the second answer at
  \<open>(3, 4)\<close>.
\<close>

theorem GetLastEstimate_shares_storage:
  "(let (estimates, h) = store_solution [[3, 4]] Map.empty ''target-1'' [3, 4] 0;
        (sol, found) = GetLastEstimate_ref estimates ''target-1'';
        first = heap_read h (Position_ref sol);
        second = map_option
          (\<lambda>h'. heap_read h' (Position_ref (fst (GetLastEstimate_ref estimates ''target-1''))))
          (heap_write h (Position_ref sol) 0 99);
        t = \<lparr>position_ref = Some 0, velocity_ref = None\<rparr>;
        (v, h1) = Target_GetPosition_ref h t;
        first_position = heap_read h1 v;
        second_position = map_option
          (\<lambda>h'. heap_read (snd (Target_GetPosition_ref h' t))
                   (fst (Target_GetPosition_ref h' t)))
          (heap_write h1 v 0 99)
    in (first, second, first_position, second_position))
   = (Some [3, 4], Some (Some [99, 4]), Some [3, 4], Some (Some [3, 4]))"
  by (simp add: store_solution_def GetLastEstimate_ref_def heap_read_def heap_write_def
        heap_alloc_def Target_GetPosition_ref_def Clone_ref_def)

end
